theory Spec2Isabelle
  imports Complex_Main "HOL-Library.AList"
begin

section \<open>Values, errors and the Python runtime\<close>

text \<open>
  The values that \<^verbatim>\<open>json.loads\<close> produces: \<^verbatim>\<open>None\<close>, booleans, integers, floats,
  strings, lists and dictionaries with string keys. A dictionary is an association list
  in insertion order; \<open>AList.update\<close> overwrites a key in place and appends a new one,
  as assignment to a Python dictionary does.
\<close>

datatype json =
    JNull
  | JBool bool
  | JInt int
  | JFloat real
  | JStr string
  | JArr "json list"
  | JObj "(string \<times> json) list"

text \<open>
  Every \<^verbatim>\<open>raise\<close> of the source and every exception of the interpreter that the
  modelled code can meet is a value. \<open>CloudFlareAPIError code message error_chain\<close>
  carries the three constructor arguments as the source passes them.
\<close>

datatype error =
    CloudFlareAPIError json json "json option"
  | CloudFlareInternalError int string
  | HTTPError int
  | OtherException string
  | PyTypeError
  | PyKeyError
  | PyIndexError
  | UnicodeDecodeError

definition api_error :: "int \<Rightarrow> string \<Rightarrow> error" where
  "api_error code msg = CloudFlareAPIError (JInt code) (JStr msg) None"

text \<open>
  Functions of the Python standard library and runtime that the source calls are
  parameters of the model: \<^verbatim>\<open>json.loads\<close> (\<open>None\<close> when it raises \<^verbatim>\<open>ValueError\<close>),
  \<^verbatim>\<open>bytes.decode('utf-8')\<close> (\<open>None\<close> when it raises), \<^verbatim>\<open>str.splitlines\<close>,
  \<^verbatim>\<open>str()\<close> of a decoded value and of a bytes object, \<^verbatim>\<open>str.lower\<close> and
  \<^verbatim>\<open>str.strip\<close>.
\<close>

record pylib =
  py_loads :: "string \<Rightarrow> json option"
  py_decode :: "string \<Rightarrow> string option"
  py_splitlines :: "string \<Rightarrow> string list"
  py_str :: "json \<Rightarrow> string"
  py_bytes_str :: "string \<Rightarrow> string"
  py_lower :: "string \<Rightarrow> string"
  py_strip :: "string \<Rightarrow> string"

subsection \<open>Operators of Python on decoded values\<close>

fun starts_with :: "string \<Rightarrow> string \<Rightarrow> bool" where
  "starts_with [] s = True"
| "starts_with (p # ps) [] = False"
| "starts_with (p # ps) (c # cs) = (p = c \<and> starts_with ps cs)"

text \<open>\<open>contains_str n s\<close> is \<^verbatim>\<open>n in s\<close> on two strings.\<close>

fun contains_str :: "string \<Rightarrow> string \<Rightarrow> bool" where
  "contains_str n [] = (n = [])"
| "contains_str n (c # cs) = (starts_with n (c # cs) \<or> contains_str n cs)"

text \<open>
  \<open>py_in k v\<close> is \<^verbatim>\<open>k in v\<close> for a string \<open>k\<close>: a key of a dictionary, an element of
  a list, a substring of a string, and \<^verbatim>\<open>TypeError\<close> on a value that is not iterable.
\<close>

definition py_in :: "string \<Rightarrow> json \<Rightarrow> error + bool" where
  "py_in k v =
     (case v of
        JObj d \<Rightarrow> Inr (map_of d k \<noteq> None)
      | JArr xs \<Rightarrow> Inr (List.member xs (JStr k))
      | JStr s \<Rightarrow> Inr (contains_str k s)
      | _ \<Rightarrow> Inl PyTypeError)"

text \<open>\<open>py_getitem v k\<close> is \<^verbatim>\<open>v[k]\<close> for a string \<open>k\<close>.\<close>

definition py_getitem :: "json \<Rightarrow> string \<Rightarrow> error + json" where
  "py_getitem v k =
     (case v of
        JObj d \<Rightarrow> (case map_of d k of None \<Rightarrow> Inl PyKeyError | Some x \<Rightarrow> Inr x)
      | _ \<Rightarrow> Inl PyTypeError)"

text \<open>\<open>py_getitem0 v\<close> is \<^verbatim>\<open>v[0]\<close>; a decoded dictionary has no integer key.\<close>

definition py_getitem0 :: "json \<Rightarrow> error + json" where
  "py_getitem0 v =
     (case v of
        JArr xs \<Rightarrow> (case xs of [] \<Rightarrow> Inl PyIndexError | x # _ \<Rightarrow> Inr x)
      | JStr s \<Rightarrow> (case s of [] \<Rightarrow> Inl PyIndexError | c # _ \<Rightarrow> Inr (JStr [c]))
      | JObj d \<Rightarrow> Inl PyKeyError
      | _ \<Rightarrow> Inl PyTypeError)"

text \<open>\<open>py_setitem v k x\<close> is \<^verbatim>\<open>v[k] = x\<close> for a string \<open>k\<close>, returning the updated \<open>v\<close>.\<close>

definition py_setitem :: "json \<Rightarrow> string \<Rightarrow> json \<Rightarrow> error + json" where
  "py_setitem v k x =
     (case v of
        JObj d \<Rightarrow> Inr (JObj (AList.update k x d))
      | _ \<Rightarrow> Inl PyTypeError)"

fun is_dict :: "json \<Rightarrow> bool" where
  "is_dict (JObj d) = True"
| "is_dict v = False"

fun is_str :: "json \<Rightarrow> bool" where
  "is_str (JStr s) = True"
| "is_str v = False"

text \<open>Truth value of a decoded value in a condition.\<close>

fun truthy :: "json \<Rightarrow> bool" where
  "truthy JNull = False"
| "truthy (JBool b) = b"
| "truthy (JInt i) = (i \<noteq> 0)"
| "truthy (JFloat r) = (r \<noteq> 0)"
| "truthy (JStr s) = (s \<noteq> [])"
| "truthy (JArr xs) = (xs \<noteq> [])"
| "truthy (JObj d) = (d \<noteq> [])"

text \<open>\<open>join sep xs\<close> is \<^verbatim>\<open>sep.join(xs)\<close>.\<close>

fun join :: "string \<Rightarrow> string list \<Rightarrow> string" where
  "join sep [] = []"
| "join sep [x] = x"
| "join sep (x # y # ys) = x @ sep @ join sep (y # ys)"

fun the_strs :: "json list \<Rightarrow> string list option" where
  "the_strs [] = Some []"
| "the_strs (JStr s # xs) = (case the_strs xs of None \<Rightarrow> None | Some ss \<Rightarrow> Some (s # ss))"
| "the_strs (v # xs) = None"

text \<open>
  The strings that iterating over a value yields, \<open>None\<close> when the value is not iterable
  or yields something that is not a string (\<^verbatim>\<open>str.join\<close> then raises).
\<close>

definition str_items :: "json \<Rightarrow> string list option" where
  "str_items v =
     (case v of
        JArr xs \<Rightarrow> the_strs xs
      | JStr s \<Rightarrow> Some (map (\<lambda>c. [c]) s)
      | JObj d \<Rightarrow> Some (map fst d)
      | _ \<Rightarrow> None)"

section \<open>Response normalization: \<^verbatim>\<open>_raw\<close>, after the network call\<close>

text \<open>The body of a response: \<^verbatim>\<open>bytes\<close>, or a \<^verbatim>\<open>str\<close>.\<close>

datatype content = Bytes string | Text string

fun is_bytes :: "content \<Rightarrow> bool" where
  "is_bytes (Bytes b) = True"
| "is_bytes (Text t) = False"

text \<open>
  \<^verbatim>\<open>if hasattr(response_data, 'decode'): response_data = response_data.decode('utf-8')\<close>:
  outside every \<^verbatim>\<open>try\<close>, so a failing decode propagates.
\<close>

definition to_text :: "pylib \<Rightarrow> content \<Rightarrow> error + string" where
  "to_text L c =
     (case c of
        Bytes b \<Rightarrow> (case py_decode L b of None \<Rightarrow> Inl UnicodeDecodeError | Some t \<Rightarrow> Inr t)
      | Text t \<Rightarrow> Inr t)"

text \<open>\<^verbatim>\<open>str(response_data)\<close>.\<close>

definition str_content :: "pylib \<Rightarrow> content \<Rightarrow> string" where
  "str_content L c = (case c of Bytes b \<Rightarrow> py_bytes_str L b | Text t \<Rightarrow> t)"

text \<open>
  The wrapping that each branch of \<^verbatim>\<open>_raw\<close> writes out: success at status 200, and
  otherwise a failure that carries the status code.
\<close>

definition wrap :: "int \<Rightarrow> json \<Rightarrow> json" where
  "wrap code v =
     (if code = 200 then JObj [(''success'', JBool True), (''result'', v)]
      else JObj [(''success'', JBool False), (''code'', JInt code), (''result'', v)])"

text \<open>
  The NDJSON loop \<^verbatim>\<open>for l in response_data.splitlines(): r.append(json.loads(l))\<close>
  inside its \<^verbatim>\<open>try\<close>: the first line that does not parse ends it.
\<close>

fun loads_all :: "pylib \<Rightarrow> string list \<Rightarrow> json list option" where
  "loads_all L [] = Some []"
| "loads_all L (l # ls) =
     (case py_loads L l of
        None \<Rightarrow> None
      | Some v \<Rightarrow> (case loads_all L ls of None \<Rightarrow> None | Some vs \<Rightarrow> Some (v # vs)))"

text \<open>
  Lines 300 to 438 of \<^verbatim>\<open>_raw\<close>, on the triple that \<^verbatim>\<open>_call_network\<close> returned. The
  branch for a numeric body (line 343) cannot be taken by a \<open>content\<close>.
\<close>

definition raw_normalize :: "pylib \<Rightarrow> string \<Rightarrow> int \<Rightarrow> content \<Rightarrow> error + json" where
  "raw_normalize L rtype response_code response_data =
     (if rtype = ''application/json'' then
        (case to_text L response_data of
           Inl e \<Rightarrow> Inl e
         | Inr t \<Rightarrow>
             (case py_loads L t of
                Some v \<Rightarrow>
                  Inr (if \<not> is_dict v then JObj [(''success'', JBool True), (''result'', v)] else v)
              | None \<Rightarrow>
                  if t = [] then
                    (if response_code = 200
                     then Inr (JObj [(''success'', JBool True), (''result'', JNull)])
                     else Inr (JObj [(''success'', JBool False), (''code'', JInt response_code),
                                     (''result'', JNull)]))
                  else
                    (case loads_all L (py_splitlines L t) of
                       Some r \<Rightarrow> Inr (JArr r)
                     | None \<Rightarrow> Inl (api_error 0 ''JSON parse failed - report to Cloudflare.''))))
      else if rtype = ''application/octet-stream'' \<and> is_bytes response_data then
        (case to_text L response_data of
           Inl e \<Rightarrow> Inl e
         | Inr t \<Rightarrow>
             (case py_loads L t of
                Some v \<Rightarrow>
                  Inr (if \<not> is_dict v \<or> py_in ''success'' v = Inr False
                       then wrap response_code v else v)
              | None \<Rightarrow> Inr (wrap response_code (JStr t))))
      else if rtype = ''text/plain'' \<or> rtype = ''application/octet-stream'' then
        (case to_text L response_data of
           Inl e \<Rightarrow> Inl e
         | Inr t \<Rightarrow>
             (case py_loads L t of
                Some v \<Rightarrow>
                  Inr (if \<not> is_dict v then JObj [(''success'', JBool True), (''result'', v)] else v)
              | None \<Rightarrow> Inr (wrap response_code (JStr t))))
      else if rtype = ''text/javascript'' \<or> rtype = ''application/javascript'' then
        Inr (wrap response_code (JStr (str_content L response_data)))
      else if rtype = ''text/html'' then
        Inr (wrap response_code (JStr (str_content L response_data)))
      else
        Inr (wrap response_code (JStr (str_content L response_data))))"

section \<open>Sanitization, raising and unwrapping: \<^verbatim>\<open>_call\<close>, after \<^verbatim>\<open>_raw\<close>\<close>

text \<open>
  The three \<^verbatim>\<open>try\<close> blocks of lines 457 to 468: a bare \<^verbatim>\<open>except\<close> turns any failure
  into the empty string.
\<close>

definition err_message :: "json \<Rightarrow> json" where
  "err_message errs =
     (case py_getitem0 errs of
        Inl e \<Rightarrow> JStr []
      | Inr e0 \<Rightarrow> (case py_getitem e0 ''message'' of Inl e \<Rightarrow> JStr [] | Inr m \<Rightarrow> m))"

definition err_location :: "pylib \<Rightarrow> json \<Rightarrow> string" where
  "err_location L errs =
     (case py_getitem0 errs of
        Inl e \<Rightarrow> []
      | Inr e0 \<Rightarrow> (case py_getitem e0 ''location'' of Inl e \<Rightarrow> [] | Inr l \<Rightarrow> py_str L l))"

definition err_path :: "json \<Rightarrow> string" where
  "err_path errs =
     (case py_getitem0 errs of
        Inl e \<Rightarrow> []
      | Inr e0 \<Rightarrow>
          (case py_getitem e0 ''path'' of
             Inl e \<Rightarrow> []
           | Inr p \<Rightarrow> (case str_items p of None \<Rightarrow> [] | Some ss \<Rightarrow> join ''>'' ss)))"

text \<open>
  Lines 446 to 484. In the branch for a body with neither \<^verbatim>\<open>success\<close>, \<^verbatim>\<open>errors\<close> nor
  \<^verbatim>\<open>result\<close> the source appends the dictionary to its own new \<^verbatim>\<open>errors\<close> list; the model
  stores the dictionary as it was before the two assignments. The keys read from that
  entry afterwards (\<^verbatim>\<open>code\<close>, \<^verbatim>\<open>message\<close>, \<^verbatim>\<open>error\<close>, \<^verbatim>\<open>error_chain\<close>) are not the
  two assigned ones, so every later read sees the same value.
\<close>

definition sanitize :: "pylib \<Rightarrow> json \<Rightarrow> error + json" where
  "sanitize L response_data =
     (case py_in ''success'' response_data of
        Inl e \<Rightarrow> Inl e
      | Inr has_success \<Rightarrow>
          if has_success then Inr response_data
          else
            (case py_in ''errors'' response_data of
               Inl e \<Rightarrow> Inl e
             | Inr has_errors \<Rightarrow>
                 if has_errors then
                   (case py_getitem response_data ''errors'' of
                      Inl e \<Rightarrow> Inl e
                    | Inr errs \<Rightarrow>
                        if errs = JNull then py_setitem response_data ''success'' (JBool True)
                        else
                          (case err_message errs of
                             JStr message \<Rightarrow>
                               (case py_setitem response_data ''errors''
                                       (JArr [JObj [(''code'', JInt 99999),
                                                    (''message'',
                                                     JStr (message @ '' - '' @ err_location L errs
                                                           @ '' - '' @ err_path errs))]]) of
                                  Inl e \<Rightarrow> Inl e
                                | Inr rd \<Rightarrow> py_setitem rd ''success'' (JBool False))
                           | _ \<Rightarrow> Inl PyTypeError))
                 else
                   (case py_in ''result'' response_data of
                      Inl e \<Rightarrow> Inl e
                    | Inr has_result \<Rightarrow>
                        if \<not> has_result then
                          (case py_setitem response_data ''errors'' (JArr [response_data]) of
                             Inl e \<Rightarrow> Inl e
                           | Inr rd \<Rightarrow> py_setitem rd ''success'' (JBool False))
                        else py_setitem response_data ''success'' (JBool True))))"

text \<open>
  Lines 491 to 514, on the value bound to \<^verbatim>\<open>errors\<close>. Logging is off, so the loop over
  the error chain only needs the chain to be iterable.
\<close>

fun iterable :: "json \<Rightarrow> bool" where
  "iterable (JArr xs) = True"
| "iterable (JObj d) = True"
| "iterable (JStr s) = True"
| "iterable v = False"

definition raise_api_error :: "json \<Rightarrow> error" where
  "raise_api_error errors =
     (case py_in ''code'' errors of
        Inl e \<Rightarrow> e
      | Inr has_code \<Rightarrow>
          (case (if has_code then py_getitem errors ''code'' else Inr (JInt 99998)) of
             Inl e \<Rightarrow> e
           | Inr code \<Rightarrow>
               (case py_in ''message'' errors of
                  Inl e \<Rightarrow> e
                | Inr has_message \<Rightarrow>
                    (case (if has_message then py_getitem errors ''message''
                           else (case py_in ''error'' errors of
                                   Inl e \<Rightarrow> Inl e
                                 | Inr has_error \<Rightarrow>
                                     if has_error then py_getitem errors ''error''
                                     else Inr (JStr []))) of
                       Inl e \<Rightarrow> e
                     | Inr message \<Rightarrow>
                         (case py_in ''error_chain'' errors of
                            Inl e \<Rightarrow> e
                          | Inr has_chain \<Rightarrow>
                              if has_chain then
                                (case py_getitem errors ''error_chain'' of
                                   Inl e \<Rightarrow> e
                                 | Inr error_chain \<Rightarrow>
                                     if iterable error_chain
                                     then CloudFlareAPIError code message (Some error_chain)
                                     else PyTypeError)
                              else CloudFlareAPIError code message None)))))"

text \<open>
  Lines 486 to 490 and the raise: \<^verbatim>\<open>response_data['success'] is False\<close> holds for the
  boolean \<^verbatim>\<open>False\<close> only.
\<close>

definition raise_if_failed :: "json \<Rightarrow> error + json" where
  "raise_if_failed response_data =
     (case py_getitem response_data ''success'' of
        Inl e \<Rightarrow> Inl e
      | Inr s \<Rightarrow>
          if s = JBool False then
            (case py_in ''errors'' response_data of
               Inl e \<Rightarrow> Inl e
             | Inr has_errors \<Rightarrow>
                 if has_errors then
                   (case py_getitem response_data ''errors'' of
                      Inl e \<Rightarrow> Inl e
                    | Inr errs \<Rightarrow>
                        if errs \<noteq> JNull then
                          (case py_getitem0 errs of
                             Inl e \<Rightarrow> Inl e
                           | Inr errors \<Rightarrow> Inl (raise_api_error errors))
                        else Inl (raise_api_error (JObj [])))
                 else Inl (raise_api_error (JObj [])))
          else Inr response_data)"

text \<open>Lines 516 to 535: the result in raw mode and in the default mode.\<close>

definition unwrap :: "bool \<Rightarrow> json \<Rightarrow> error + json" where
  "unwrap raw_mode response_data =
     (let res = (case py_getitem response_data ''result'' of
                   Inl e \<Rightarrow> response_data
                 | Inr r \<Rightarrow> r)
      in if raw_mode then
           (case py_in ''result_info'' response_data of
              Inl e \<Rightarrow> Inl e
            | Inr has_info \<Rightarrow>
                if has_info then
                  (case py_getitem response_data ''result_info'' of
                     Inl e \<Rightarrow> Inl e
                   | Inr ri \<Rightarrow> Inr (JObj [(''result'', res), (''result_info'', ri)]))
                else Inr (JObj [(''result'', res)]))
         else Inr res)"

text \<open>Lines 446 to 535 of \<^verbatim>\<open>_call\<close> as one function of the normalized response.\<close>

definition call_response :: "pylib \<Rightarrow> bool \<Rightarrow> json \<Rightarrow> error + json" where
  "call_response L raw_mode response_data =
     (case sanitize L response_data of
        Inl e \<Rightarrow> Inl e
      | Inr rd \<Rightarrow>
          (case raise_if_failed rd of
             Inl e \<Rightarrow> Inl e
           | Inr rd' \<Rightarrow> unwrap raw_mode rd'))"

section \<open>Configuration and authentication: \<^verbatim>\<open>_v4base\<close>\<close>

text \<open>
  The HTTP methods that the endpoint nodes pass, with \<^verbatim>\<open>method\<close> and
  \<^verbatim>\<open>method.lower()\<close> for each.
\<close>

datatype verb = GET | PATCH | POST | PUT | DELETE

fun method_name :: "verb \<Rightarrow> string" where
  "method_name GET = ''GET''"
| "method_name PATCH = ''PATCH''"
| "method_name POST = ''POST''"
| "method_name PUT = ''PUT''"
| "method_name DELETE = ''DELETE''"

fun method_lower :: "verb \<Rightarrow> string" where
  "method_lower GET = ''get''"
| "method_lower PATCH = ''patch''"
| "method_lower POST = ''post''"
| "method_lower PUT = ''put''"
| "method_lower DELETE = ''delete''"

text \<open>
  The configuration dictionary: its string-valued entries (\<^verbatim>\<open>email\<close>, \<^verbatim>\<open>key\<close>,
  \<^verbatim>\<open>token\<close>, \<^verbatim>\<open>certtoken\<close>, \<^verbatim>\<open>base_url\<close>, \<^verbatim>\<open>profile\<close> and the per-method
  \<^verbatim>\<open>email.get\<close>, \<^verbatim>\<open>token.patch\<close>, ...), where a key can be present with the value
  \<^verbatim>\<open>None\<close>, and the \<^verbatim>\<open>raw\<close> flag. The entries for logging, sessions, timeouts and
  retries configure the transport and the logger and are left out.
\<close>

record config =
  cfg_str :: "string \<rightharpoonup> string option"
  cfg_raw :: bool

record v4base =
  config :: config
  api_email :: "string option"
  api_key :: "string option"
  api_token :: "string option"
  api_certtoken :: "string option"
  base_url :: "string option"
  raw_flag :: bool
  user_agent :: string

definition BASE_URL :: string where
  "BASE_URL = ''https://api.cloudflare.com/client/v4''"

text \<open>\<^verbatim>\<open>config[k] if k in config else d\<close>.\<close>

definition cfg_get :: "config \<Rightarrow> string \<Rightarrow> string option \<Rightarrow> string option" where
  "cfg_get c k d = (case cfg_str c k of Some v \<Rightarrow> v | None \<Rightarrow> d)"

text \<open>\<^verbatim>\<open>_v4base.__init__\<close>; \<open>ua\<close> is what \<^verbatim>\<open>user_agent()\<close> returns.\<close>

definition v4base_init :: "config \<Rightarrow> string \<Rightarrow> v4base" where
  "v4base_init c ua =
     \<lparr> config = c,
       api_email = cfg_get c ''email'' None,
       api_key = cfg_get c ''key'' None,
       api_token = cfg_get c ''token'' None,
       api_certtoken = cfg_get c ''certtoken'' None,
       base_url = cfg_get c ''base_url'' (Some BASE_URL),
       raw_flag = cfg_raw c,
       user_agent = ua \<rparr>"

type_synonym headers = "string \<rightharpoonup> string"

definition add_headers :: "v4base \<Rightarrow> headers \<Rightarrow> headers" where
  "add_headers b headers =
     (headers(''User-Agent'' \<mapsto> user_agent b))(''Content-Type'' \<mapsto> ''application/json'')"

definition add_auth_headers :: "v4base \<Rightarrow> headers \<Rightarrow> verb \<Rightarrow> error + headers" where
  "add_auth_headers b headers method =
     (let email = cfg_get (config b) (''email'' @ ''.'' @ method_lower method) (api_email b);
          key = cfg_get (config b) (''key'' @ ''.'' @ method_lower method) (api_key b);
          token = cfg_get (config b) (''token'' @ ''.'' @ method_lower method) (api_token b)
      in if email = None \<and> key = None \<and> token = None then
           Inl (api_error 0 ''neither email/key or token defined'')
         else if key \<noteq> None \<and> token \<noteq> None then
           Inl (api_error 0 ''confused info - both key and token defined'')
         else if email \<noteq> None \<and> key = None \<and> token = None then
           Inl (api_error 0 ''email defined however neither key or token defined'')
         else if email = None \<and> token \<noteq> None then
           Inr (headers(''Authorization'' \<mapsto> ''Bearer '' @ the token))
         else if email = None \<and> key \<noteq> None then
           Inr (headers(''Authorization'' \<mapsto> ''Bearer '' @ the key))
         else if email \<noteq> None \<and> key \<noteq> None then
           Inr ((headers(''X-Auth-Email'' \<mapsto> the email))(''X-Auth-Key'' \<mapsto> the key))
         else if email \<noteq> None \<and> token \<noteq> None then
           Inr ((headers(''X-Auth-Email'' \<mapsto> the email))(''X-Auth-Key'' \<mapsto> the token))
         else Inl (CloudFlareInternalError 0 ''coding issue!''))"

definition add_certtoken_headers :: "v4base \<Rightarrow> headers \<Rightarrow> verb \<Rightarrow> error + headers" where
  "add_certtoken_headers b headers method =
     (case cfg_get (config b) (''certtoken'' @ ''.'' @ method_lower method) (api_certtoken b) of
        None \<Rightarrow> Inl (api_error 0 ''no cert token defined'')
      | Some t \<Rightarrow> Inr (headers(''X-Auth-User-Service-Key'' \<mapsto> t)))"

section \<open>The network call: \<^verbatim>\<open>_call_network\<close>\<close>

text \<open>
  An open file has a name and a content. After the merge of line 201 the \<^verbatim>\<open>files\<close>
  argument is a tuple of Python pairs \<^verbatim>\<open>(field, (filename, value))\<close>.
\<close>

record upload =
  file_name :: string
  file_data :: string

datatype part = FileObj upload | Field json

datatype files =
    FNone
  | FDict "(string \<times> upload) list"
  | FTuple "(json \<times> (string option \<times> part)) list"

fun truthy_files :: "files \<Rightarrow> bool" where
  "truthy_files FNone = False"
| "truthy_files (FDict d) = (d \<noteq> [])"
| "truthy_files (FTuple t) = (t \<noteq> [])"

record request =
  req_method :: string
  req_url :: string
  req_headers :: headers
  req_params :: json
  req_data :: json
  req_files :: files

record response =
  content_type :: "string option"
  status_code :: int
  content :: content

text \<open>
  What the transport does with a request: it returns a response, raises a
  \<^verbatim>\<open>RequestException\<close> (connection errors and timeouts are subclasses of it), or
  raises something else.
\<close>

datatype net_result =
    Response response
  | RequestException string
  | Exception string

text \<open>Concatenation with \<^verbatim>\<open>+\<close>: a \<^verbatim>\<open>None\<close> operand raises \<^verbatim>\<open>TypeError\<close>.\<close>

fun add_strs :: "string option list \<Rightarrow> error + string" where
  "add_strs [] = Inr []"
| "add_strs (None # xs) = Inl PyTypeError"
| "add_strs (Some s # xs) = (case add_strs xs of Inl e \<Rightarrow> Inl e | Inr t \<Rightarrow> Inr (s @ t))"

fun truthy_str :: "string option \<Rightarrow> bool" where
  "truthy_str None = False"
| "truthy_str (Some s) = (s \<noteq> [])"

text \<open>Lines 168 to 199: the URL, from the five parts and the four identifiers.\<close>

definition build_url ::
  "v4base \<Rightarrow> verb \<Rightarrow> string option list \<Rightarrow> string option list \<Rightarrow> json \<Rightarrow> error + string" where
  "build_url b method parts identifiers data =
     (case (if parts ! 1 \<noteq> None \<or> (data \<noteq> JNull \<and> method = GET) then
              (if identifiers ! 0 = None then
                 Inl (api_error 0 ''You must specify first identifier'')
               else if identifiers ! 1 = None then
                 add_strs [base_url b, Some ''/'', parts ! 0, Some ''/'', identifiers ! 0,
                           Some ''/'', parts ! 1]
               else
                 add_strs [base_url b, Some ''/'', parts ! 0, Some ''/'', identifiers ! 0,
                           Some ''/'', parts ! 1, Some ''/'', identifiers ! 1])
            else
              (if identifiers ! 0 = None then
                 add_strs [base_url b, Some ''/'', parts ! 0]
               else
                 add_strs [base_url b, Some ''/'', parts ! 0, Some ''/'', identifiers ! 0])) of
        Inl e \<Rightarrow> Inl e
      | Inr url \<Rightarrow>
          Inr (if truthy_str (parts ! 2) then
                 url @ ''/'' @ the (parts ! 2)
                 @ (if truthy_str (identifiers ! 2) then ''/'' @ the (identifiers ! 2) else [])
                 @ (if truthy_str (parts ! 3) then
                      ''/'' @ the (parts ! 3)
                      @ (if truthy_str (identifiers ! 3) then ''/'' @ the (identifiers ! 3)
                         else [])
                      @ (if truthy_str (parts ! 4) then ''/'' @ the (parts ! 4) else [])
                    else [])
               else url))"

text \<open>\<^verbatim>\<open>xs[d]\<close> on a list: an integer or boolean index, negative from the end.\<close>

definition list_at :: "json list \<Rightarrow> int \<Rightarrow> error + json" where
  "list_at xs i =
     (if 0 \<le> i \<and> i < int (length xs) then Inr (xs ! nat i)
      else if i < 0 \<and> - int (length xs) \<le> i then Inr (xs ! nat (int (length xs) + i))
      else Inl PyIndexError)"

definition list_item :: "json list \<Rightarrow> json \<Rightarrow> error + json" where
  "list_item xs d =
     (case d of
        JInt i \<Rightarrow> list_at xs i
      | JBool t \<Rightarrow> list_at xs (if t then 1 else 0)
      | _ \<Rightarrow> Inl PyTypeError)"

fun list_fields :: "json list \<Rightarrow> json list \<Rightarrow> error + (json \<times> (string option \<times> part)) list" where
  "list_fields xs [] = Inr []"
| "list_fields xs (d # ds) =
     (case list_item xs d of
        Inl e \<Rightarrow> Inl e
      | Inr v \<Rightarrow>
          (case list_fields xs ds of
             Inl e \<Rightarrow> Inl e
           | Inr fs \<Rightarrow> Inr ((d, (None, Field v)) # fs)))"

text \<open>\<^verbatim>\<open>[(d, (None, data[d])) for d in data]\<close> for a value \<open>data\<close> that is true.\<close>

definition data_fields :: "json \<Rightarrow> error + (json \<times> (string option \<times> part)) list" where
  "data_fields data =
     (case data of
        JObj kv \<Rightarrow> Inr (map (\<lambda>(k, v). (JStr k, (None, Field v))) kv)
      | JArr xs \<Rightarrow> list_fields xs xs
      | _ \<Rightarrow> Inl PyTypeError)"

text \<open>Lines 201 to 207: the new \<^verbatim>\<open>files\<close> and \<^verbatim>\<open>data\<close>.\<close>

definition merge_files :: "files \<Rightarrow> json \<Rightarrow> error + (files \<times> json)" where
  "merge_files fs data =
     (if truthy_files fs \<and> truthy data then
        (case fs of
           FDict d \<Rightarrow>
             (case data_fields data of
                Inl e \<Rightarrow> Inl e
              | Inr new \<Rightarrow>
                  Inr (FTuple (map (\<lambda>(f, x). (JStr f, (Some (file_name x), FileObj x))) d @ new),
                       JNull))
         | _ \<Rightarrow> Inl PyTypeError)
      else Inr (fs, data))"

text \<open>
  \<open>before_last c s\<close> is \<^verbatim>\<open>s[0:s.rfind(c)]\<close> for a string that contains \<open>c\<close>.
\<close>

definition before_last :: "char \<Rightarrow> string \<Rightarrow> string" where
  "before_last c s = rev (tl (dropWhile (\<lambda>x. x \<noteq> c) (rev s)))"

text \<open>Lines 233 to 241: the content type, with its default when the header is missing.\<close>

definition response_type :: "pylib \<Rightarrow> response \<Rightarrow> string" where
  "response_type L r =
     (case content_type r of
        None \<Rightarrow> ''application/octet-stream''
      | Some t \<Rightarrow>
          py_lower L (py_strip L (if CHR '';'' \<in> set t then before_last CHR '';'' t else t)))"

text \<open>
  \<^verbatim>\<open>Response.raise_for_status\<close> of the HTTP library: an \<^verbatim>\<open>HTTPError\<close> for a status from
  400 to 599, and a plain return otherwise.
\<close>

definition raise_for_status :: "int \<Rightarrow> error option" where
  "raise_for_status code = (if 400 \<le> code \<and> code < 600 then Some (HTTPError code) else None)"

text \<open>
  Lines 162 to 207 of \<^verbatim>\<open>_call_network\<close>: the checks, the URL and the merge of
  \<^verbatim>\<open>files\<close> and \<^verbatim>\<open>data\<close>, up to the request that goes to the transport.
\<close>

definition prepare ::
  "v4base \<Rightarrow> verb \<Rightarrow> headers \<Rightarrow> string option list \<Rightarrow> string option list \<Rightarrow> json \<Rightarrow> json
   \<Rightarrow> files \<Rightarrow> error + request" where
  "prepare b method headers parts identifiers params data fs =
     (if parts ! 0 = None then
        Inl (CloudFlareInternalError 0 ''You must specify a method and endpoint'')
      else
        (case build_url b method parts identifiers data of
           Inl e \<Rightarrow> Inl e
         | Inr url \<Rightarrow>
             (case merge_files fs data of
                Inl e \<Rightarrow> Inl e
              | Inr (fs', data') \<Rightarrow>
                  Inr \<lparr> req_method = method_name method, req_url = url,
                        req_headers = headers, req_params = params,
                        req_data = data', req_files = fs' \<rparr>)))"

text \<open>
  Lines 213 to 290: what \<^verbatim>\<open>_call_network\<close> makes of the transport's answer. The
  first \<^verbatim>\<open>except\<close> clause takes every \<^verbatim>\<open>RequestException\<close>; any other exception is
  raised again.
\<close>

definition receive :: "pylib \<Rightarrow> net_result \<Rightarrow> error + string \<times> int \<times> content" where
  "receive L answer =
     (case answer of
        RequestException e \<Rightarrow> Inl (CloudFlareAPIError (JInt 0) (JStr e) None)
      | Exception e \<Rightarrow> Inl (OtherException e)
      | Response r \<Rightarrow>
          if 500 \<le> status_code r \<and> status_code r \<le> 599 then
            (case raise_for_status (status_code r) of
               Some e \<Rightarrow> Inl e
             | None \<Rightarrow>
                 Inl (CloudFlareInternalError 0 ''internal error in status code processing''))
          else Inr (response_type L r, status_code r, content r))"

text \<open>
  \<^verbatim>\<open>_call_network\<close>. The first component of the result lists the requests handed to
  the transport, in order; the second is the raised error or the returned triple.
\<close>

definition call_network ::
  "v4base \<Rightarrow> (request \<Rightarrow> net_result) \<Rightarrow> pylib \<Rightarrow> verb \<Rightarrow> headers \<Rightarrow> string option list
   \<Rightarrow> string option list \<Rightarrow> json \<Rightarrow> json \<Rightarrow> files
   \<Rightarrow> request list \<times> (error + string \<times> int \<times> content)" where
  "call_network b net L method headers parts identifiers params data fs =
     (case prepare b method headers parts identifiers params data fs of
        Inl e \<Rightarrow> ([], Inl e)
      | Inr req \<Rightarrow> ([req], receive L (net req)))"

section \<open>The call flows: \<^verbatim>\<open>_raw\<close>, \<^verbatim>\<open>_call\<close>, \<^verbatim>\<open>_call_unwrapped\<close> and \<^verbatim>\<open>do_*\<close>\<close>

definition raw ::
  "v4base \<Rightarrow> (request \<Rightarrow> net_result) \<Rightarrow> pylib \<Rightarrow> verb \<Rightarrow> headers \<Rightarrow> string option list
   \<Rightarrow> string option list \<Rightarrow> json \<Rightarrow> json \<Rightarrow> files \<Rightarrow> request list \<times> (error + json)" where
  "raw b net L method headers parts identifiers params data fs =
     (case call_network b net L method headers parts identifiers params data fs of
        (sent, Inl e) \<Rightarrow> (sent, Inl e)
      | (sent, Inr (rtype, response_code, response_data)) \<Rightarrow>
          (sent, raw_normalize L rtype response_code response_data))"

definition call ::
  "v4base \<Rightarrow> (request \<Rightarrow> net_result) \<Rightarrow> pylib \<Rightarrow> verb \<Rightarrow> headers \<Rightarrow> string option list
   \<Rightarrow> string option list \<Rightarrow> json \<Rightarrow> json \<Rightarrow> files \<Rightarrow> request list \<times> (error + json)" where
  "call b net L method headers parts identifiers params data fs =
     (case raw b net L method headers parts identifiers params data fs of
        (sent, Inl e) \<Rightarrow> (sent, Inl e)
      | (sent, Inr response_data) \<Rightarrow> (sent, call_response L (raw_flag b) response_data))"

definition call_unwrapped ::
  "v4base \<Rightarrow> (request \<Rightarrow> net_result) \<Rightarrow> pylib \<Rightarrow> verb \<Rightarrow> headers \<Rightarrow> string option list
   \<Rightarrow> string option list \<Rightarrow> json \<Rightarrow> json \<Rightarrow> files \<Rightarrow> request list \<times> (error + json)" where
  "call_unwrapped b net L method headers parts identifiers params data fs =
     raw b net L method headers parts identifiers params data fs"

definition do_no_auth ::
  "v4base \<Rightarrow> (request \<Rightarrow> net_result) \<Rightarrow> pylib \<Rightarrow> verb \<Rightarrow> string option list
   \<Rightarrow> string option list \<Rightarrow> json \<Rightarrow> json \<Rightarrow> files \<Rightarrow> request list \<times> (error + json)" where
  "do_no_auth b net L method parts identifiers params data fs =
     call b net L method (add_headers b Map.empty) parts identifiers params data fs"

text \<open>
  Lines 125 to 132, shared by \<^verbatim>\<open>do_auth\<close> and \<^verbatim>\<open>do_auth_unwrapped\<close>: the content type of
  a script, and the header set and then deleted when files are attached.
\<close>

definition content_headers :: "headers \<Rightarrow> json \<Rightarrow> files \<Rightarrow> headers" where
  "content_headers headers data fs =
     (let h1 = (if is_str data then headers(''Content-Type'' \<mapsto> ''application/javascript'')
                else headers)
      in if truthy_files fs then (h1(''Content-Type'' \<mapsto> ''multipart/form-data''))(''Content-Type'' := None)
         else h1)"

definition do_auth ::
  "v4base \<Rightarrow> (request \<Rightarrow> net_result) \<Rightarrow> pylib \<Rightarrow> verb \<Rightarrow> string option list
   \<Rightarrow> string option list \<Rightarrow> json \<Rightarrow> json \<Rightarrow> files \<Rightarrow> request list \<times> (error + json)" where
  "do_auth b net L method parts identifiers params data fs =
     (case add_auth_headers b (add_headers b Map.empty) method of
        Inl e \<Rightarrow> ([], Inl e)
      | Inr headers \<Rightarrow>
          call b net L method (content_headers headers data fs) parts identifiers params data fs)"

definition do_auth_unwrapped ::
  "v4base \<Rightarrow> (request \<Rightarrow> net_result) \<Rightarrow> pylib \<Rightarrow> verb \<Rightarrow> string option list
   \<Rightarrow> string option list \<Rightarrow> json \<Rightarrow> json \<Rightarrow> files \<Rightarrow> request list \<times> (error + json)" where
  "do_auth_unwrapped b net L method parts identifiers params data fs =
     (case add_auth_headers b (add_headers b Map.empty) method of
        Inl e \<Rightarrow> ([], Inl e)
      | Inr headers \<Rightarrow>
          call_unwrapped b net L method (content_headers headers data fs) parts identifiers
            params data fs)"

definition do_certauth ::
  "v4base \<Rightarrow> (request \<Rightarrow> net_result) \<Rightarrow> pylib \<Rightarrow> verb \<Rightarrow> string option list
   \<Rightarrow> string option list \<Rightarrow> json \<Rightarrow> json \<Rightarrow> files \<Rightarrow> request list \<times> (error + json)" where
  "do_certauth b net L method parts identifiers params data fs =
     (case add_certtoken_headers b (add_headers b Map.empty) method of
        Inl e \<Rightarrow> ([], Inl e)
      | Inr headers \<Rightarrow> call b net L method headers parts identifiers params data fs)"

section \<open>Endpoint nodes\<close>

text \<open>
  The five node classes that \<^verbatim>\<open>add\<close> creates, by the type string of the endpoint
  table: \<^verbatim>\<open>_add_unused\<close>, \<^verbatim>\<open>_add_no_auth\<close>, \<^verbatim>\<open>_add_with_auth\<close>,
  \<^verbatim>\<open>_add_with_auth_unwrapped\<close> and \<^verbatim>\<open>_add_with_cert_auth\<close>.
\<close>

datatype policy = VOID | OPEN | AUTH | AUTH_UNWRAPPED | CERT

text \<open>Only \<^verbatim>\<open>post\<close> takes and passes \<^verbatim>\<open>files\<close>.\<close>

definition verb_files :: "verb \<Rightarrow> files \<Rightarrow> files" where
  "verb_files v fs = (if v = POST then fs else FNone)"

text \<open>
  \<open>invoke t v\<close> is the method \<^verbatim>\<open>get\<close>, \<^verbatim>\<open>patch\<close>, \<^verbatim>\<open>post\<close>, \<^verbatim>\<open>put\<close> or \<^verbatim>\<open>delete\<close>
  of a node of class \<open>t\<close> with the parts \<open>parts\<close>.
\<close>

fun invoke ::
  "policy \<Rightarrow> verb \<Rightarrow> v4base \<Rightarrow> (request \<Rightarrow> net_result) \<Rightarrow> pylib \<Rightarrow> string option list
   \<Rightarrow> string option list \<Rightarrow> json \<Rightarrow> json \<Rightarrow> files \<Rightarrow> request list \<times> (error + json)" where
  "invoke VOID v b net L parts ids params data fs = ([], Inl (api_error 0 ''not found''))"
| "invoke OPEN GET b net L parts ids params data fs =
     do_no_auth b net L GET parts ids params data FNone"
| "invoke OPEN PATCH b net L parts ids params data fs =
     ([], Inl (api_error 0 ''patch() call not available for this endpoint''))"
| "invoke OPEN POST b net L parts ids params data fs =
     ([], Inl (api_error 0 ''post() call not available for this endpoint''))"
| "invoke OPEN PUT b net L parts ids params data fs =
     ([], Inl (api_error 0 ''put() call not available for this endpoint''))"
| "invoke OPEN DELETE b net L parts ids params data fs =
     ([], Inl (api_error 0 ''delete() call not available for this endpoint''))"
| "invoke AUTH v b net L parts ids params data fs =
     do_auth b net L v parts ids params data (verb_files v fs)"
| "invoke AUTH_UNWRAPPED v b net L parts ids params data fs =
     do_auth_unwrapped b net L v parts ids params data (verb_files v fs)"
| "invoke CERT v b net L parts ids params data fs =
     do_certauth b net L v parts ids params data (verb_files v fs)"

text \<open>
  The path that \<^verbatim>\<open>__str__\<close> puts between its brackets:
  \<^verbatim>\<open>'/' + '/:id/'.join(filter(None, self._parts))\<close>.
\<close>

definition node_path :: "string option list \<Rightarrow> string" where
  "node_path parts = ''/'' @ join ''/:id/'' (map the (filter truthy_str parts))"

section \<open>Client construction: \<^verbatim>\<open>CloudFlare.__init__\<close>\<close>

record args =
  arg_email :: "string option"
  arg_key :: "string option"
  arg_token :: "string option"
  arg_certtoken :: "string option"
  arg_profile :: "string option"
  arg_base_url :: "string option"
  arg_raw :: bool

text \<open>\<^verbatim>\<open>if a is not None: config[k] = a\<close>.\<close>

definition override :: "string \<Rightarrow> string option \<Rightarrow> (string \<rightharpoonup> string option) \<Rightarrow> (string \<rightharpoonup> string option)" where
  "override k a m = (case a of None \<Rightarrow> m | Some v \<Rightarrow> m(k \<mapsto> Some v))"

text \<open>
  Lines 952 to 954: \<^verbatim>\<open>for x in config: if config[x] == '': config[x] = None\<close>.
\<close>

definition blank_to_none :: "(string \<rightharpoonup> string option) \<Rightarrow> (string \<rightharpoonup> string option)" where
  "blank_to_none m = (\<lambda>x. case m x of
                             None \<Rightarrow> None
                           | Some v \<Rightarrow> if v = Some [] then Some None else Some v)"

text \<open>
  Lines 927 to 948 of \<^verbatim>\<open>__init__\<close>: the string-valued entries after the arguments of
  the constructor have been written over those of the configuration file; \<open>c0\<close> is what
  \<^verbatim>\<open>read_configs\<close> returned.
\<close>

definition overrides :: "config \<Rightarrow> args \<Rightarrow> (string \<rightharpoonup> string option)" where
  "overrides c0 a =
     override ''base_url'' (arg_base_url a)
       (override ''profile'' (arg_profile a)
         (override ''certtoken'' (arg_certtoken a)
           (override ''token'' (arg_token a)
             (override ''key'' (arg_key a)
               (override ''email'' (arg_email a) (cfg_str c0))))))"

text \<open>\<^verbatim>\<open>__init__\<close> up to the creation of \<^verbatim>\<open>_base\<close>.\<close>

definition init_config :: "config \<Rightarrow> args \<Rightarrow> config" where
  "init_config c0 a =
     \<lparr> cfg_str = blank_to_none (overrides c0 a), cfg_raw = arg_raw a \<rparr>"

definition init :: "config \<Rightarrow> args \<Rightarrow> string \<Rightarrow> v4base" where
  "init c0 a ua = v4base_init (init_config c0 a) ua"

section \<open>The URL rule in the words of the specification\<close>

text \<open>
  Literal segments interleaved with the supplied identifiers, left to right: each present
  segment is followed by its identifier when that is supplied, and the first absent
  segment ends the path.
\<close>

fun interleave :: "string option list \<Rightarrow> string option list \<Rightarrow> string list" where
  "interleave [] ids = []"
| "interleave (None # ps) ids = []"
| "interleave (Some p # ps) [] = p # interleave ps []"
| "interleave (Some p # ps) (None # ids) = p # interleave ps ids"
| "interleave (Some p # ps) (Some i # ids) = p # i # interleave ps ids"

text \<open>
  Where the source tests the truth value of a segment or of an identifier, the empty
  string counts as absent.
\<close>

definition nonblank :: "string option \<Rightarrow> string option" where
  "nonblank x = (if x = Some [] then None else x)"

definition spec_url :: "string \<Rightarrow> string option list \<Rightarrow> string option list \<Rightarrow> string" where
  "spec_url base parts identifiers = join ''/'' (base # interleave parts identifiers)"

section \<open>Concrete instances for evaluation\<close>

text \<open>
  Three JSON documents, written with their quotation marks:
  \<open>doc_a1\<close> is \<^verbatim>\<open>{"a":1}\<close>, \<open>doc_a2\<close> is \<^verbatim>\<open>{"a":2}\<close> and
  \<open>doc_errors_null\<close> is \<^verbatim>\<open>{"errors": null}\<close>.
\<close>

definition doc_a1 :: string where
  "doc_a1 = ''{'' @ [CHR 0x22] @ ''a'' @ [CHR 0x22] @ '':1}''"

definition doc_a2 :: string where
  "doc_a2 = ''{'' @ [CHR 0x22] @ ''a'' @ [CHR 0x22] @ '':2}''"

definition doc_errors_null :: string where
  "doc_errors_null = ''{'' @ [CHR 0x22] @ ''errors'' @ [CHR 0x22] @ '': null}''"

text \<open>
  \<^verbatim>\<open>json.loads\<close> on the strings that the examples below give it: the three documents
  parse, and the empty string, the word \<^verbatim>\<open>xyz\<close> and two documents on two lines do not.
\<close>

definition loads0 :: "string \<Rightarrow> json option" where
  "loads0 s =
     (if s = doc_a1 then Some (JObj [(''a'', JInt 1)])
      else if s = doc_a2 then Some (JObj [(''a'', JInt 2)])
      else if s = doc_errors_null then Some (JObj [(''errors'', JNull)])
      else None)"

text \<open>\<^verbatim>\<open>str.splitlines\<close> on a text whose only line boundary is the line feed.\<close>

fun lines_lf :: "string \<Rightarrow> string list" where
  "lines_lf [] = []"
| "lines_lf (c # cs) =
     (if c = CHR 0x0A then [] # lines_lf cs
      else (case lines_lf cs of [] \<Rightarrow> [[c]] | l # ls \<Rightarrow> (c # l) # ls))"

text \<open>\<^verbatim>\<open>str()\<close> of \<^verbatim>\<open>None\<close>, of a boolean and of a string; no other value is printed below.\<close>

fun str0 :: "json \<Rightarrow> string" where
  "str0 JNull = ''None''"
| "str0 (JBool b) = (if b then ''True'' else ''False'')"
| "str0 (JStr s) = s"
| "str0 v = []"

text \<open>
  The runtime on the inputs of the examples: bodies of ASCII bytes, which decode to
  themselves and print as \<^verbatim>\<open>b'...'\<close>, and content types that are in lower case with
  no blank around them already.
\<close>

definition lib0 :: pylib where
  "lib0 = \<lparr> py_loads = loads0,
            py_decode = (\<lambda>b. Some b),
            py_splitlines = lines_lf,
            py_str = str0,
            py_bytes_str = (\<lambda>b. ''b'' @ [CHR 0x27] @ b @ [CHR 0x27]),
            py_lower = (\<lambda>s. s),
            py_strip = (\<lambda>s. s) \<rparr>"

text \<open>A transport that answers every request with the same response.\<close>

definition answer_with :: "response \<Rightarrow> request \<Rightarrow> net_result" where
  "answer_with r req = Response r"

definition json_response :: "int \<Rightarrow> string \<Rightarrow> response" where
  "json_response code body =
     \<lparr> content_type = Some ''application/json'', status_code = code, content = Bytes body \<rparr>"

text \<open>No arguments, an empty configuration file, and a client with a token only.\<close>

definition no_args :: args where
  "no_args = \<lparr> arg_email = None, arg_key = None, arg_token = None, arg_certtoken = None,
               arg_profile = None, arg_base_url = None, arg_raw = False \<rparr>"

definition empty_config :: config where
  "empty_config = \<lparr> cfg_str = Map.empty, cfg_raw = False \<rparr>"

definition token_client :: v4base where
  "token_client = init empty_config (no_args\<lparr> arg_token := Some ''secret'' \<rparr>) ''python-cloudflare''"

definition zones :: "string option list" where
  "zones = [Some ''zones'', None, None, None, None]"

definition no_ids :: "string option list" where
  "no_ids = [None, None, None, None]"

text \<open>
  Two bodies of two lines: \<open>doc_two_lines\<close> holds \<open>doc_a1\<close> and \<open>doc_a2\<close>, and
  \<open>doc_broken\<close> holds \<open>doc_a1\<close> and the word \<^verbatim>\<open>xyz\<close>.
\<close>

definition doc_two_lines :: string where
  "doc_two_lines = doc_a1 @ [CHR 0x0A] @ doc_a2"

definition doc_broken :: string where
  "doc_broken = doc_a1 @ [CHR 0x0A] @ ''xyz''"

definition octet_response :: "int \<Rightarrow> string \<Rightarrow> response" where
  "octet_response code body =
     \<lparr> content_type = Some ''application/octet-stream'', status_code = code,
       content = Bytes body \<rparr>"

text \<open>
  A configuration file with a token for \<^verbatim>\<open>PATCH\<close> calls, and the arguments of a client
  whose credentials are empty strings.
\<close>

definition patch_config :: config where
  "patch_config = \<lparr> cfg_str = [''token.patch'' \<mapsto> Some ''special''], cfg_raw = False \<rparr>"

definition blank_args :: args where
  "blank_args = no_args\<lparr> arg_email := Some [], arg_key := Some [], arg_token := Some [] \<rparr>"

text \<open>
  One attached file, the parts of an endpoint with one segment and of one with four
  segments, and identifiers for the first two segments only.
\<close>

definition one_file :: files where
  "one_file = FDict [(''file'', \<lparr> file_name = ''a.txt'', file_data = ''hello'' \<rparr>)]"

definition ips :: "string option list" where
  "ips = [Some ''ips'', None, None, None, None]"

definition four_parts :: "string option list" where
  "four_parts = [Some ''accounts'', Some ''rules'', Some ''lists'', Some ''items'', None]"

definition two_ids :: "string option list" where
  "two_ids = [Some ''A1'', Some ''R2'', None, None]"

text \<open>
  A client with a certificate token only, the parts of the endpoint for certificates,
  and a script as the body of a request.
\<close>

definition cert_client :: v4base where
  "cert_client =
     init empty_config (no_args\<lparr> arg_certtoken := Some ''cert-secret'' \<rparr>) ''python-cloudflare''"

definition certificates :: "string option list" where
  "certificates = [Some ''certificates'', None, None, None, None]"

definition script :: string where
  "script = ''addEventListener()''"

section \<open>The call flow around the transport\<close>

lemma call_network_prepared:
  "prepare b m h parts ids params data fs = Inr req \<Longrightarrow>
   call_network b net L m h parts ids params data fs = ([req], receive L (net req))"
  by (simp add: call_network_def)

lemma call_network_refused:
  "prepare b m h parts ids params data fs = Inl e \<Longrightarrow>
   call_network b net L m h parts ids params data fs = ([], Inl e)"
  by (simp add: call_network_def)

lemma raw_received:
  "prepare b m h parts ids params data fs = Inr req \<Longrightarrow>
   raw b net L m h parts ids params data fs =
     ([req], case receive L (net req) of
               Inl e \<Rightarrow> Inl e
             | Inr (t, c, d) \<Rightarrow> raw_normalize L t c d)"
  by (simp add: raw_def call_network_def split: sum.splits prod.splits)

lemma call_received:
  "prepare b m h parts ids params data fs = Inr req \<Longrightarrow>
   call b net L m h parts ids params data fs =
     ([req], case receive L (net req) of
               Inl e \<Rightarrow> Inl e
             | Inr (t, c, d) \<Rightarrow>
                 (case raw_normalize L t c d of
                    Inl e \<Rightarrow> Inl e
                  | Inr rd \<Rightarrow> call_response L (raw_flag b) rd))"
  by (simp add: call_def raw_received split: sum.splits prod.splits)

lemma receive_server_error:
  "500 \<le> status_code r \<Longrightarrow> status_code r \<le> 599 \<Longrightarrow>
   receive L (Response r) = Inl (HTTPError (status_code r))"
  by (simp add: receive_def raise_for_status_def)

lemma receive_response:
  "\<not> (500 \<le> status_code r \<and> status_code r \<le> 599) \<Longrightarrow>
   receive L (Response r) = Inr (response_type L r, status_code r, content r)"
  by (auto simp: receive_def)

lemma token_client_simps:
  "base_url token_client = Some BASE_URL" "raw_flag token_client = False"
  "user_agent token_client = ''python-cloudflare''"
  by (simp_all add: token_client_def init_def v4base_init_def init_config_def overrides_def cfg_get_def
      override_def blank_to_none_def no_args_def empty_config_def)

lemma prepare_zones:
  "prepare token_client GET h zones no_ids JNull JNull FNone =
     Inr \<lparr> req_method = ''GET'', req_url = BASE_URL @ ''/zones'', req_headers = h,
           req_params = JNull, req_data = JNull, req_files = FNone \<rparr>"
  by (simp add: prepare_def build_url_def merge_files_def zones_def no_ids_def token_client_simps)

section \<open>Server errors\<close>

text \<open>
  Claim C2. When the transport answers with a status code from 500 to 599, the call
  flow raises the HTTP error of the transport as soon as the response is received:
  \<^verbatim>\<open>_call_network\<close>, \<^verbatim>\<open>_raw\<close>, \<^verbatim>\<open>_call\<close> and \<^verbatim>\<open>_call_unwrapped\<close> all end with that
  error, whatever the content type and the body are, so no normalized response comes
  out of such a status.
\<close>

theorem server_error_raised_before_normalization:
  assumes "prepare b m h parts ids params data fs = Inr req"
    and "net req = Response r"
    and "500 \<le> status_code r" and "status_code r \<le> 599"
  shows "call_network b net L m h parts ids params data fs = ([req], Inl (HTTPError (status_code r)))
       \<and> raw b net L m h parts ids params data fs = ([req], Inl (HTTPError (status_code r)))
       \<and> call b net L m h parts ids params data fs = ([req], Inl (HTTPError (status_code r)))
       \<and> call_unwrapped b net L m h parts ids params data fs = ([req], Inl (HTTPError (status_code r)))"
  using assms
  by (simp add: call_network_prepared raw_received call_received call_unwrapped_def
      receive_server_error)

text \<open>A 503 answer whose body is a well-formed JSON document.\<close>

theorem server_error_witness:
  "call token_client (answer_with (json_response 503 doc_a1)) lib0 GET Map.empty zones no_ids JNull JNull FNone
     = ([\<lparr> req_method = ''GET'', req_url = BASE_URL @ ''/zones'', req_headers = Map.empty,
           req_params = JNull, req_data = JNull, req_files = FNone \<rparr>], Inl (HTTPError 503))"
  using server_error_raised_before_normalization
    [OF prepare_zones, of "answer_with (json_response 503 doc_a1)" Map.empty "json_response 503 doc_a1" lib0]
  by (simp add: answer_with_def json_response_def)


section \<open>Sanitization of the success field\<close>

lemmas item_defs = py_in_def py_getitem_def py_setitem_def py_getitem0_def

lemmas flow_defs = sanitize_def raise_if_failed_def raise_api_error_def unwrap_def
  call_response_def

lemma sanitize_keeps_success:
  "py_in ''success'' rd = Inr True \<Longrightarrow> sanitize L rd = Inr rd"
  by (simp add: sanitize_def)

lemma sanitize_list:
  "sanitize L (JArr xs) =
     (if List.member xs (JStr ''success'') then Inr (JArr xs) else Inl PyTypeError)"
  by (simp add: sanitize_def item_defs)

lemma call_response_list_fails: "call_response L rm (JArr xs) = Inl PyTypeError"
  by (simp add: call_response_def sanitize_list raise_if_failed_def py_getitem_def)

lemma sanitize_dict_cases:
  assumes "map_of d ''success'' = None"
  shows "sanitize L (JObj d) =
     (case map_of d ''errors'' of
        Some errs \<Rightarrow>
          if errs = JNull then Inr (JObj (AList.update ''success'' (JBool True) d))
          else (case err_message errs of
                  JStr message \<Rightarrow>
                    Inr (JObj (AList.update ''success'' (JBool False)
                           (AList.update ''errors''
                              (JArr [JObj [(''code'', JInt 99999),
                                           (''message'',
                                            JStr (message @ '' - '' @ err_location L errs
                                                  @ '' - '' @ err_path errs))]]) d)))
                | _ \<Rightarrow> Inl PyTypeError)
      | None \<Rightarrow>
          if map_of d ''result'' = None then
            Inr (JObj (AList.update ''success'' (JBool False)
                   (AList.update ''errors'' (JArr [JObj d]) d)))
          else Inr (JObj (AList.update ''success'' (JBool True) d)))"
  using assms
  by (auto simp: sanitize_def item_defs split: option.splits json.splits)

lemma sanitize_synthesizes_errors:
  assumes "py_in ''success'' rd = Inr False"
    and "sanitize L rd = Inr rd'"
    and "py_getitem rd' ''success'' = Inr (JBool False)"
  shows "\<exists>e es. py_getitem rd' ''errors'' = Inr (JArr (e # es))"
proof (cases rd)
  case (JObj d)
  with assms(1) have nos: "map_of d ''success'' = None"
    by (simp add: py_in_def)
  from assms(2,3) show ?thesis
    unfolding JObj sanitize_dict_cases [OF nos]
    by (auto simp: py_getitem_def update_conv' split: option.splits if_splits json.splits)
next
  case (JArr xs)
  with assms(1,2) show ?thesis by (simp add: sanitize_list py_in_def)
next
  case (JStr s)
  with assms(1,2) show ?thesis
    by (simp add: sanitize_def item_defs split: if_splits)
qed (use assms(1) in \<open>simp_all add: py_in_def\<close>)


section \<open>Evaluation of the concrete instances\<close>

lemma response_type_json_response:
  "response_type lib0 (json_response code body) = ''application/json''"
  by (simp add: response_type_def json_response_def lib0_def)

lemma lib0_simps:
  "py_loads lib0 = loads0" "py_decode lib0 = (\<lambda>b. Some b)" "py_splitlines lib0 = lines_lf"
  by (simp_all add: lib0_def)

lemma json_response_simps:
  "status_code (json_response code body) = code"
  "content (json_response code body) = Bytes body"
  by (simp_all add: json_response_def)

lemma loads0_simps:
  "loads0 [] = None" "loads0 doc_a1 = Some (JObj [(''a'', JInt 1)])"
  "loads0 doc_a2 = Some (JObj [(''a'', JInt 2)])"
  "loads0 doc_errors_null = Some (JObj [(''errors'', JNull)])"
  "loads0 ''xyz'' = None"
  "loads0 doc_two_lines = None"
  "loads0 doc_broken = None"
  by (simp_all add: loads0_def doc_a1_def doc_a2_def doc_errors_null_def doc_two_lines_def
      doc_broken_def)

lemma lines_lf_simps:
  "lines_lf doc_two_lines = [doc_a1, doc_a2]"
  "lines_lf doc_broken = [doc_a1, ''xyz'']"
  by (simp_all add: doc_a1_def doc_a2_def doc_two_lines_def doc_broken_def)

lemma docs_not_empty:
  "doc_two_lines \<noteq> []" "doc_broken \<noteq> []"
  by (simp_all add: doc_a1_def doc_two_lines_def doc_broken_def)

lemma octet_response_simps:
  "status_code (octet_response code body) = code"
  "content (octet_response code body) = Bytes body"
  "response_type lib0 (octet_response code body) = ''application/octet-stream''"
  by (simp_all add: octet_response_def response_type_def lib0_def)

section \<open>Empty bodies\<close>

text \<open>
  Claim C6. For an \<^verbatim>\<open>application/json\<close> response with an empty body, \<^verbatim>\<open>_raw\<close>
  returns success with the result \<^verbatim>\<open>None\<close> at status 200 and the failure
  \<^verbatim>\<open>{success: False, code: 404, result: None}\<close> at status 404; in the default mode
  \<^verbatim>\<open>_call\<close> then returns \<^verbatim>\<open>None\<close> at status 200 and raises a
  \<^verbatim>\<open>CloudFlareAPIError\<close> with code 99998 and an empty message at status 404. The two
  facts about the runtime, that the empty bytes decode to the empty string and that the
  empty string is not a JSON document, are hypotheses.
\<close>

theorem empty_json_body:
  assumes "prepare b m h parts ids params data fs = Inr req"
    and "net req = Response r"
    and "response_type L r = ''application/json''"
    and "content r = Bytes [] \<or> content r = Text []"
    and "py_decode L [] = Some []" and "py_loads L [] = None"
    and "status_code r = 200 \<or> status_code r = 404"
    and "\<not> raw_flag b"
  shows "raw b net L m h parts ids params data fs =
           ([req], Inr (if status_code r = 200
                        then JObj [(''success'', JBool True), (''result'', JNull)]
                        else JObj [(''success'', JBool False), (''code'', JInt 404),
                                   (''result'', JNull)]))
       \<and> call b net L m h parts ids params data fs =
           ([req], if status_code r = 200 then Inr JNull
                   else Inl (CloudFlareAPIError (JInt 99998) (JStr []) None))"
proof -
  from assms(4,5) have decoded: "to_text L (content r) = Inr []"
    by (auto simp: to_text_def)
  from assms(7) have ok: "\<not> (500 \<le> status_code r \<and> status_code r \<le> 599)"
    by auto
  have norm: "raw_normalize L ''application/json'' (status_code r) (content r) =
      Inr (if status_code r = 200
           then JObj [(''success'', JBool True), (''result'', JNull)]
           else JObj [(''success'', JBool False), (''code'', JInt (status_code r)),
                      (''result'', JNull)])"
    by (simp add: raw_normalize_def decoded assms(6))
  have ok_flow: "call_response L False (JObj [(''success'', JBool True), (''result'', JNull)])
      = Inr JNull"
    by (simp add: flow_defs item_defs)
  have bad_flow: "call_response L False
      (JObj [(''success'', JBool False), (''code'', JInt c), (''result'', JNull)])
      = Inl (CloudFlareAPIError (JInt 99998) (JStr []) None)" for c
    by (simp add: flow_defs item_defs)
  from assms(7) show ?thesis
    by (auto simp: raw_received [OF assms(1)] call_received [OF assms(1)] assms(2,3,8)
        receive_response [OF ok] norm ok_flow bad_flow)
qed

text \<open>An empty body at status 404 and at status 200.\<close>

theorem empty_json_body_witness:
  "call token_client (answer_with (json_response 404 [])) lib0 GET Map.empty zones no_ids
      JNull JNull FNone =
     ([\<lparr> req_method = ''GET'', req_url = BASE_URL @ ''/zones'', req_headers = Map.empty,
         req_params = JNull, req_data = JNull, req_files = FNone \<rparr>],
      Inl (CloudFlareAPIError (JInt 99998) (JStr []) None))
   \<and> call token_client (answer_with (json_response 200 [])) lib0 GET Map.empty zones no_ids
      JNull JNull FNone =
     ([\<lparr> req_method = ''GET'', req_url = BASE_URL @ ''/zones'', req_headers = Map.empty,
         req_params = JNull, req_data = JNull, req_files = FNone \<rparr>],
      Inr JNull)"
  using empty_json_body [OF prepare_zones, of "answer_with (json_response 404 [])" Map.empty
      "json_response 404 []" lib0]
    empty_json_body [OF prepare_zones, of "answer_with (json_response 200 [])" Map.empty
      "json_response 200 []" lib0]
  by (simp add: answer_with_def response_type_json_response json_response_simps lib0_simps
      loads0_simps token_client_simps)


section \<open>Failures and their errors list\<close>

text \<open>
  Claim C1, as the specification states it, fails: for an empty \<^verbatim>\<open>application/json\<close>
  body at status 404, \<^verbatim>\<open>_raw\<close> returns a dictionary that has \<^verbatim>\<open>success\<close> set to
  \<^verbatim>\<open>False\<close> already, the sanitization of \<^verbatim>\<open>_call\<close> leaves it as it is, and it has no
  \<^verbatim>\<open>errors\<close> key.
\<close>

theorem failure_without_errors_counterexample:
  "raw_normalize lib0 ''application/json'' 404 (Bytes []) =
     Inr (JObj [(''success'', JBool False), (''code'', JInt 404), (''result'', JNull)])
   \<and> sanitize lib0 (JObj [(''success'', JBool False), (''code'', JInt 404), (''result'', JNull)]) =
     Inr (JObj [(''success'', JBool False), (''code'', JInt 404), (''result'', JNull)])
   \<and> py_getitem (JObj [(''success'', JBool False), (''code'', JInt 404), (''result'', JNull)])
        ''success'' = Inr (JBool False)
   \<and> py_in ''errors'' (JObj [(''success'', JBool False), (''code'', JInt 404), (''result'', JNull)])
        = Inr False"
  by (simp add: raw_normalize_def to_text_def lib0_simps loads0_simps sanitize_def item_defs)

text \<open>
  Claim C1, amended. When the normalized response carries no \<^verbatim>\<open>success\<close> field and
  the sanitization sets it to \<^verbatim>\<open>False\<close>, the sanitized response has a non-empty
  \<^verbatim>\<open>errors\<close> list, which the sanitization wrote. A response that carries a
  \<^verbatim>\<open>success\<close> field is returned unchanged, with no \<^verbatim>\<open>errors\<close> list added; in
  particular the failure that \<^verbatim>\<open>_raw\<close> builds for an empty \<^verbatim>\<open>application/json\<close>
  body at a status other than 200 keeps the three keys \<^verbatim>\<open>success\<close>, \<^verbatim>\<open>code\<close> and
  \<^verbatim>\<open>result\<close> and has no \<^verbatim>\<open>errors\<close> key. The theorem holds for every value \<open>rd\<close>,
  so for every value that \<^verbatim>\<open>_raw\<close> returns at any status and content type.
\<close>

theorem sanitized_failure_has_errors:
  "(py_in ''success'' rd = Inr False \<and> sanitize L rd = Inr rd'
      \<and> py_getitem rd' ''success'' = Inr (JBool False)
      \<longrightarrow> (\<exists>e es. py_getitem rd' ''errors'' = Inr (JArr (e # es))))
   \<and> (py_in ''success'' rd = Inr True \<longrightarrow> sanitize L rd = Inr rd)
   \<and> (to_text L body = Inr [] \<and> py_loads L [] = None \<and> code \<noteq> 200 \<longrightarrow>
        raw_normalize L ''application/json'' code body =
          Inr (JObj [(''success'', JBool False), (''code'', JInt code), (''result'', JNull)])
        \<and> sanitize L (JObj [(''success'', JBool False), (''code'', JInt code), (''result'', JNull)])
          = Inr (JObj [(''success'', JBool False), (''code'', JInt code), (''result'', JNull)])
        \<and> py_in ''errors''
            (JObj [(''success'', JBool False), (''code'', JInt code), (''result'', JNull)])
          = Inr False)"
proof (intro conjI impI)
  assume "py_in ''success'' rd = Inr False \<and> sanitize L rd = Inr rd'
      \<and> py_getitem rd' ''success'' = Inr (JBool False)"
  then show "\<exists>e es. py_getitem rd' ''errors'' = Inr (JArr (e # es))"
    using sanitize_synthesizes_errors by blast
next
  assume "py_in ''success'' rd = Inr True"
  then show "sanitize L rd = Inr rd" by (rule sanitize_keeps_success)
next
  assume a: "to_text L body = Inr [] \<and> py_loads L [] = None \<and> code \<noteq> 200"
  then show "raw_normalize L ''application/json'' code body =
          Inr (JObj [(''success'', JBool False), (''code'', JInt code), (''result'', JNull)])"
    by (simp add: raw_normalize_def)
  show "sanitize L (JObj [(''success'', JBool False), (''code'', JInt code), (''result'', JNull)])
          = Inr (JObj [(''success'', JBool False), (''code'', JInt code), (''result'', JNull)])"
    by (simp add: sanitize_def item_defs)
  show "py_in ''errors''
            (JObj [(''success'', JBool False), (''code'', JInt code), (''result'', JNull)])
          = Inr False"
    by (simp add: item_defs)
qed

text \<open>
  A body with an \<^verbatim>\<open>error\<close> field only, a body that reports its own failure, and an
  empty body at status 403.
\<close>

theorem sanitized_failure_witness:
  "sanitize lib0 (JObj [(''error'', JStr ''bad certificate'')]) =
     Inr (JObj [(''error'', JStr ''bad certificate''),
                (''errors'', JArr [JObj [(''error'', JStr ''bad certificate'')]]),
                (''success'', JBool False)])
   \<and> (\<exists>e es. py_getitem (JObj [(''error'', JStr ''bad certificate''),
                (''errors'', JArr [JObj [(''error'', JStr ''bad certificate'')]]),
                (''success'', JBool False)]) ''errors'' = Inr (JArr (e # es)))
   \<and> sanitize lib0 (JObj [(''success'', JBool False)]) = Inr (JObj [(''success'', JBool False)])
   \<and> raw_normalize lib0 ''application/json'' 403 (Bytes []) =
          Inr (JObj [(''success'', JBool False), (''code'', JInt 403), (''result'', JNull)])"
proof -
  have s: "sanitize lib0 (JObj [(''error'', JStr ''bad certificate'')]) =
     Inr (JObj [(''error'', JStr ''bad certificate''),
                (''errors'', JArr [JObj [(''error'', JStr ''bad certificate'')]]),
                (''success'', JBool False)])"
    by (simp add: sanitize_def item_defs)
  have a: "py_in ''success'' (JObj [(''error'', JStr ''bad certificate'')]) = Inr False"
    by (simp add: item_defs)
  have g: "py_getitem (JObj [(''error'', JStr ''bad certificate''),
                (''errors'', JArr [JObj [(''error'', JStr ''bad certificate'')]]),
                (''success'', JBool False)]) ''success'' = Inr (JBool False)"
    by (simp add: item_defs)
  have b: "py_in ''success'' (JObj [(''success'', JBool False)]) = Inr True"
    by (simp add: item_defs)
  have c: "to_text lib0 (Bytes []) = Inr [] \<and> py_loads lib0 [] = None \<and> (403::int) \<noteq> 200"
    by (simp add: to_text_def lib0_simps loads0_simps)
  show ?thesis
    using sanitized_failure_has_errors
      [where rd = "JObj [(''error'', JStr ''bad certificate'')]" and L = lib0
         and rd' = "JObj [(''error'', JStr ''bad certificate''),
                (''errors'', JArr [JObj [(''error'', JStr ''bad certificate'')]]),
                (''success'', JBool False)]"
         and body = "Bytes []" and code = 403]
      sanitized_failure_has_errors
      [where rd = "JObj [(''success'', JBool False)]" and L = lib0 and body = "Bytes []"
         and code = 403]
      s a g b c
    by simp
qed

section \<open>A null errors field\<close>

text \<open>
  Claim C7, as the specification states it, fails at two inputs. At status 503 the body
  \<open>doc_errors_null\<close> is never sanitized and the call raises the transport's HTTP error.
  At status 404 under the content type \<^verbatim>\<open>application/octet-stream\<close> the parsed body
  has no \<^verbatim>\<open>success\<close> key, so \<^verbatim>\<open>_raw\<close> wraps it as a failure and the call raises a
  \<^verbatim>\<open>CloudFlareAPIError\<close>.
\<close>

theorem errors_null_counterexample:
  "call token_client (answer_with (json_response 503 doc_errors_null)) lib0 GET Map.empty zones
      no_ids JNull JNull FNone =
     ([\<lparr> req_method = ''GET'', req_url = BASE_URL @ ''/zones'', req_headers = Map.empty,
         req_params = JNull, req_data = JNull, req_files = FNone \<rparr>],
      Inl (HTTPError 503))
   \<and> call token_client (answer_with (octet_response 404 doc_errors_null)) lib0 GET Map.empty
      zones no_ids JNull JNull FNone =
     ([\<lparr> req_method = ''GET'', req_url = BASE_URL @ ''/zones'', req_headers = Map.empty,
         req_params = JNull, req_data = JNull, req_files = FNone \<rparr>],
      Inl (CloudFlareAPIError (JInt 99998) (JStr []) None))"
  by (simp add: call_received [OF prepare_zones] answer_with_def receive_def
      raise_for_status_def json_response_simps octet_response_simps raw_normalize_def
      to_text_def lib0_simps loads0_simps wrap_def flow_defs item_defs token_client_simps)

text \<open>
  Claim C7, amended. For every status code outside 500 to 599 and a response of content
  type \<^verbatim>\<open>application/json\<close> or \<^verbatim>\<open>text/plain\<close> whose body parses to the object with
  the single field \<^verbatim>\<open>errors\<close> set to null, \<^verbatim>\<open>_raw\<close> returns that object, the
  sanitization sets \<^verbatim>\<open>success\<close> to \<^verbatim>\<open>True\<close>, and \<^verbatim>\<open>_call\<close> returns the sanitized
  object (under the key \<^verbatim>\<open>result\<close> in raw mode) and raises nothing.
\<close>

theorem errors_null_is_success:
  assumes "prepare b m h parts ids params data fs = Inr req"
    and "net req = Response r"
    and "\<not> (500 \<le> status_code r \<and> status_code r \<le> 599)"
    and "response_type L r = ''application/json'' \<or> response_type L r = ''text/plain''"
    and "to_text L (content r) = Inr t"
    and "py_loads L t = Some (JObj [(''errors'', JNull)])"
  shows "raw b net L m h parts ids params data fs = ([req], Inr (JObj [(''errors'', JNull)]))
       \<and> sanitize L (JObj [(''errors'', JNull)]) =
           Inr (JObj [(''errors'', JNull), (''success'', JBool True)])
       \<and> call b net L m h parts ids params data fs =
           ([req], Inr (if raw_flag b
                        then JObj [(''result'',
                                    JObj [(''errors'', JNull), (''success'', JBool True)])]
                        else JObj [(''errors'', JNull), (''success'', JBool True)]))"
proof -
  have norm: "raw_normalize L (response_type L r) (status_code r) (content r) =
      Inr (JObj [(''errors'', JNull)])"
    using assms(4) by (auto simp: raw_normalize_def assms(5,6))
  have flow: "call_response L rm (JObj [(''errors'', JNull)]) =
      Inr (if rm then JObj [(''result'', JObj [(''errors'', JNull), (''success'', JBool True)])]
           else JObj [(''errors'', JNull), (''success'', JBool True)])" for rm
    by (simp add: flow_defs item_defs)
  show ?thesis
    by (simp add: raw_received [OF assms(1)] call_received [OF assms(1)] assms(2)
        receive_response [OF assms(3)] norm flow) (simp add: sanitize_def item_defs)
qed

text \<open>The body \<open>doc_errors_null\<close> at status 404.\<close>

theorem errors_null_witness:
  "call token_client (answer_with (json_response 404 doc_errors_null)) lib0 GET Map.empty zones
      no_ids JNull JNull FNone =
     ([\<lparr> req_method = ''GET'', req_url = BASE_URL @ ''/zones'', req_headers = Map.empty,
         req_params = JNull, req_data = JNull, req_files = FNone \<rparr>],
      Inr (JObj [(''errors'', JNull), (''success'', JBool True)]))"
  using errors_null_is_success [OF prepare_zones, of "answer_with (json_response 404 doc_errors_null)"
      Map.empty "json_response 404 doc_errors_null" lib0 doc_errors_null]
  by (simp add: answer_with_def response_type_json_response json_response_simps lib0_simps
      loads0_simps token_client_simps to_text_def)

section \<open>Newline-delimited JSON\<close>

lemma loads_all_None_iff:
  "loads_all L ls = None \<longleftrightarrow> (\<exists>l \<in> set ls. py_loads L l = None)"
  by (induction ls) (auto split: option.splits)

lemma loads_all_fails:
  "\<exists>l \<in> set ls. py_loads L l = None \<Longrightarrow> loads_all L ls = None"
  by (simp only: loads_all_None_iff)

lemma loads_all_parses:
  "\<not> (\<exists>l \<in> set ls. py_loads L l = None) \<Longrightarrow>
   loads_all L ls = Some (map (\<lambda>l. the (py_loads L l)) ls)"
  by (induction ls) (auto split: option.splits)

text \<open>
  Claim C5, as the specification states it, fails. The body \<open>doc_broken\<close> does not parse
  as one document and its first line parses, yet \<^verbatim>\<open>_raw\<close> raises the parse error: one
  line that does not parse is enough. And for the body \<open>doc_two_lines\<close>, whose lines both
  parse, \<^verbatim>\<open>_call\<close> does not return the sequence: its sanitization assigns a key to the
  list and ends with a \<^verbatim>\<open>TypeError\<close>.
\<close>

theorem ndjson_counterexample:
  "raw_normalize lib0 ''application/json'' 200 (Bytes (doc_broken)) =
     Inl (api_error 0 ''JSON parse failed - report to Cloudflare.'')
   \<and> py_splitlines lib0 (doc_broken) = [doc_a1, ''xyz'']
   \<and> py_loads lib0 doc_a1 = Some (JObj [(''a'', JInt 1)])
   \<and> call token_client (answer_with (json_response 200 doc_two_lines))
      lib0 GET Map.empty zones no_ids JNull JNull FNone =
     ([\<lparr> req_method = ''GET'', req_url = BASE_URL @ ''/zones'', req_headers = Map.empty,
         req_params = JNull, req_data = JNull, req_files = FNone \<rparr>],
      Inl PyTypeError)"
  by (simp add: call_received [OF prepare_zones] answer_with_def receive_def
      json_response_simps response_type_json_response raw_normalize_def docs_not_empty
      to_text_def lib0_simps loads0_simps lines_lf_simps call_response_list_fails)

text \<open>
  Claim C5, amended. For an \<^verbatim>\<open>application/json\<close> response whose body is not empty and
  does not parse as one JSON document, \<^verbatim>\<open>_raw\<close> parses every line of the body. When
  every line parses, the sequence of the parsed lines, in order, is what \<^verbatim>\<open>_raw\<close>
  returns, and \<^verbatim>\<open>_call_unwrapped\<close> returns it as the result of the call; when some
  line does not parse, the call raises the \<^verbatim>\<open>CloudFlareAPIError\<close> of the failed parse.
\<close>

theorem ndjson_fallback:
  assumes "prepare b m h parts ids params data fs = Inr req"
    and "net req = Response r"
    and "\<not> (500 \<le> status_code r \<and> status_code r \<le> 599)"
    and "response_type L r = ''application/json''"
    and "to_text L (content r) = Inr t"
    and "t \<noteq> []"
    and "py_loads L t = None"
  shows "raw b net L m h parts ids params data fs =
           ([req], if \<exists>l \<in> set (py_splitlines L t). py_loads L l = None
                   then Inl (api_error 0 ''JSON parse failed - report to Cloudflare.'')
                   else Inr (JArr (map (\<lambda>l. the (py_loads L l)) (py_splitlines L t))))
       \<and> call_unwrapped b net L m h parts ids params data fs =
           raw b net L m h parts ids params data fs"
proof -
  have norm: "raw_normalize L ''application/json'' (status_code r) (content r) =
      (if \<exists>l \<in> set (py_splitlines L t). py_loads L l = None
       then Inl (api_error 0 ''JSON parse failed - report to Cloudflare.'')
       else Inr (JArr (map (\<lambda>l. the (py_loads L l)) (py_splitlines L t))))"
  proof (cases "\<exists>l \<in> set (py_splitlines L t). py_loads L l = None")
    case True
    then show ?thesis
      by (simp add: raw_normalize_def assms(5,6,7) loads_all_fails del: bex_simps)
  next
    case False
    then show ?thesis
      by (simp add: raw_normalize_def assms(5,6,7) loads_all_parses del: bex_simps)
  qed
  show ?thesis
    by (simp add: raw_received [OF assms(1)] assms(2,4) receive_response [OF assms(3)] norm
        call_unwrapped_def del: bex_simps)
qed

text \<open>The body \<open>doc_two_lines\<close> through \<^verbatim>\<open>_call_unwrapped\<close>.\<close>

theorem ndjson_witness:
  "call_unwrapped token_client (answer_with (json_response 200 doc_two_lines))
      lib0 GET Map.empty zones no_ids JNull JNull FNone =
     ([\<lparr> req_method = ''GET'', req_url = BASE_URL @ ''/zones'', req_headers = Map.empty,
         req_params = JNull, req_data = JNull, req_files = FNone \<rparr>],
      Inr (JArr [JObj [(''a'', JInt 1)], JObj [(''a'', JInt 2)]]))"
  using ndjson_fallback [OF prepare_zones, of
      "answer_with (json_response 200 doc_two_lines)" Map.empty
      "json_response 200 doc_two_lines" lib0 doc_two_lines]
  by (simp add: answer_with_def response_type_json_response json_response_simps lib0_simps
      loads0_simps lines_lf_simps to_text_def docs_not_empty)


section \<open>Authentication\<close>

lemma override_other: "x \<noteq> k \<Longrightarrow> override k a m x = m x"
  by (simp add: override_def split: option.splits)

lemma override_same: "override k (Some v) m k = Some (Some v)"
  by (simp add: override_def)

lemma do_auth_refused:
  "add_auth_headers b (add_headers b Map.empty) m = Inl e \<Longrightarrow>
   do_auth b net L m parts ids params data fs = ([], Inl e)
   \<and> do_auth_unwrapped b net L m parts ids params data fs = ([], Inl e)"
  by (simp add: do_auth_def do_auth_unwrapped_def)

text \<open>
  Claim C3. Let \<open>email\<close>, \<open>key\<close> and \<open>token\<close> be the resolved credentials: the value
  under the key of the method (\<^verbatim>\<open>email.get\<close>, ...) when the configuration has that
  key, and the generic value otherwise. \<^verbatim>\<open>_add_auth_headers\<close> fails with the error
  for no credential when none of the three is defined, with the error for a confused
  credential when a key and a token are both defined, and with the error for an
  incomplete credential when only an email is defined. Otherwise a token alone gives
  \<^verbatim>\<open>Authorization: Bearer\<close> with the token, a key alone gives \<^verbatim>\<open>Authorization: Bearer\<close>
  with the key, and an email with a key or with a token gives the pair \<^verbatim>\<open>X-Auth-Email\<close>
  and \<^verbatim>\<open>X-Auth-Key\<close>, the token standing for the key in the second case. Whenever the
  resolution fails, \<^verbatim>\<open>do_auth\<close> and \<^verbatim>\<open>do_auth_unwrapped\<close> raise its error and hand no
  request to the transport.
\<close>

theorem auth_resolution:
  assumes "email = (case cfg_str (config b) (''email.'' @ method_lower m) of
                      Some v \<Rightarrow> v | None \<Rightarrow> api_email b)"
    and "key = (case cfg_str (config b) (''key.'' @ method_lower m) of
                  Some v \<Rightarrow> v | None \<Rightarrow> api_key b)"
    and "token = (case cfg_str (config b) (''token.'' @ method_lower m) of
                    Some v \<Rightarrow> v | None \<Rightarrow> api_token b)"
  shows "(email = None \<and> key = None \<and> token = None \<longrightarrow>
            add_auth_headers b h m = Inl (api_error 0 ''neither email/key or token defined''))
       \<and> (key \<noteq> None \<and> token \<noteq> None \<longrightarrow>
            add_auth_headers b h m =
              Inl (api_error 0 ''confused info - both key and token defined''))
       \<and> (email \<noteq> None \<and> key = None \<and> token = None \<longrightarrow>
            add_auth_headers b h m =
              Inl (api_error 0 ''email defined however neither key or token defined''))
       \<and> (email = None \<and> key = None \<and> token = Some t \<longrightarrow>
            add_auth_headers b h m = Inr (h(''Authorization'' \<mapsto> ''Bearer '' @ t)))
       \<and> (email = None \<and> key = Some k \<and> token = None \<longrightarrow>
            add_auth_headers b h m = Inr (h(''Authorization'' \<mapsto> ''Bearer '' @ k)))
       \<and> (email = Some e \<and> key = Some k \<and> token = None \<longrightarrow>
            add_auth_headers b h m = Inr (h(''X-Auth-Email'' \<mapsto> e, ''X-Auth-Key'' \<mapsto> k)))
       \<and> (email = Some e \<and> key = None \<and> token = Some t \<longrightarrow>
            add_auth_headers b h m = Inr (h(''X-Auth-Email'' \<mapsto> e, ''X-Auth-Key'' \<mapsto> t)))
       \<and> (\<forall>err. add_auth_headers b (add_headers b Map.empty) m = Inl err \<longrightarrow>
            do_auth b net L m parts ids params data fs = ([], Inl err)
            \<and> do_auth_unwrapped b net L m parts ids params data fs = ([], Inl err))"
proof -
  have e: "cfg_get (config b) (''email'' @ ''.'' @ method_lower m) (api_email b) = email"
    and k: "cfg_get (config b) (''key'' @ ''.'' @ method_lower m) (api_key b) = key"
    and t: "cfg_get (config b) (''token'' @ ''.'' @ method_lower m) (api_token b) = token"
    by (simp_all add: cfg_get_def assms)
  have resolved: "add_auth_headers b h m =
      (if email = None \<and> key = None \<and> token = None then
         Inl (api_error 0 ''neither email/key or token defined'')
       else if key \<noteq> None \<and> token \<noteq> None then
         Inl (api_error 0 ''confused info - both key and token defined'')
       else if email \<noteq> None \<and> key = None \<and> token = None then
         Inl (api_error 0 ''email defined however neither key or token defined'')
       else if email = None \<and> token \<noteq> None then
         Inr (h(''Authorization'' \<mapsto> ''Bearer '' @ the token))
       else if email = None \<and> key \<noteq> None then
         Inr (h(''Authorization'' \<mapsto> ''Bearer '' @ the key))
       else if email \<noteq> None \<and> key \<noteq> None then
         Inr (h(''X-Auth-Email'' \<mapsto> the email, ''X-Auth-Key'' \<mapsto> the key))
       else if email \<noteq> None \<and> token \<noteq> None then
         Inr (h(''X-Auth-Email'' \<mapsto> the email, ''X-Auth-Key'' \<mapsto> the token))
       else Inl (CloudFlareInternalError 0 ''coding issue!''))"
    unfolding add_auth_headers_def e k t by (simp add: Let_def)
  have refused: "\<forall>err. add_auth_headers b (add_headers b Map.empty) m = Inl err \<longrightarrow>
      do_auth b net L m parts ids params data fs = ([], Inl err)
      \<and> do_auth_unwrapped b net L m parts ids params data fs = ([], Inl err)"
    using do_auth_refused by blast
  show ?thesis
    by (intro conjI refused) (auto simp: resolved)
qed

lemma token_client_creds:
  "config token_client = \<lparr> cfg_str = [''token'' \<mapsto> Some ''secret''], cfg_raw = False \<rparr>"
  "api_email token_client = None" "api_key token_client = None"
  "api_token token_client = Some ''secret''"
  by (simp_all add: token_client_def init_def v4base_init_def init_config_def overrides_def cfg_get_def
      override_def blank_to_none_def no_args_def empty_config_def fun_eq_iff)

text \<open>
  A token alone, a token for \<^verbatim>\<open>PATCH\<close> that takes precedence over the generic one, and
  a client with no credential.
\<close>

theorem auth_resolution_witness:
  "add_auth_headers token_client Map.empty GET = Inr [''Authorization'' \<mapsto> ''Bearer secret'']
   \<and> add_auth_headers (init patch_config (no_args\<lparr> arg_token := Some ''secret'' \<rparr>) ''ua'')
        Map.empty PATCH = Inr [''Authorization'' \<mapsto> ''Bearer special'']
   \<and> do_auth (init empty_config no_args ''ua'') (answer_with (json_response 200 doc_a1)) lib0
        GET zones no_ids JNull JNull FNone =
        ([], Inl (api_error 0 ''neither email/key or token defined''))"
proof -
  let ?p = "init patch_config (no_args\<lparr> arg_token := Some ''secret'' \<rparr>) ''ua''"
  let ?n = "init empty_config no_args ''ua''"
  have p: "cfg_str (config ?p) ''email.patch'' = None" "cfg_str (config ?p) ''key.patch'' = None"
    "cfg_str (config ?p) ''token.patch'' = Some (Some ''special'')"
    "api_email ?p = None" "api_key ?p = None"
    by (simp_all add: init_def v4base_init_def init_config_def overrides_def cfg_get_def
      override_def blank_to_none_def no_args_def patch_config_def)
  have n: "cfg_str (config ?n) k = None" "api_email ?n = None" "api_key ?n = None"
    "api_token ?n = None" for k
    by (simp_all add: init_def v4base_init_def init_config_def overrides_def cfg_get_def
      override_def blank_to_none_def no_args_def empty_config_def)
  show ?thesis
    using auth_resolution [where b = token_client and m = GET and h = Map.empty
        and t = "''secret''", OF refl refl refl]
      auth_resolution [where b = ?p and m = PATCH and h = Map.empty
        and t = "''special''", OF refl refl refl]
      auth_resolution [where b = ?n and m = GET and h = "add_headers ?n Map.empty"
        and net = "answer_with (json_response 200 doc_a1)" and L = lib0 and parts = zones
        and ids = no_ids and params = JNull and data = JNull and fs = FNone, OF refl refl refl]
    by (simp add: token_client_creds p n)
qed

section \<open>Verbs that an endpoint does not allow\<close>

lemma starts_with_self: "starts_with n (n @ s)"
  by (induction n) simp_all

lemma contains_if_starts: "starts_with n s \<Longrightarrow> contains_str n s"
  by (cases s; cases n) simp_all

lemma contains_prefix: "contains_str n (n @ s)"
  by (rule contains_if_starts) (rule starts_with_self)

text \<open>
  Claim C8, as the specification states it, fails: the message of the error that
  \<^verbatim>\<open>post\<close> raises on an endpoint without authentication names the verb and does not
  name the path of the endpoint, neither as \<^verbatim>\<open>__str__\<close> prints it nor as its segment.
\<close>

theorem disallowed_verb_counterexample:
  "invoke OPEN POST token_client (answer_with (json_response 200 doc_a1)) lib0 ips no_ids
      JNull JNull FNone =
     ([], Inl (api_error 0 ''post() call not available for this endpoint''))
   \<and> node_path ips = ''/ips''
   \<and> \<not> contains_str ''/ips'' ''post() call not available for this endpoint''
   \<and> \<not> contains_str ''ips'' ''post() call not available for this endpoint''"
  by (simp add: ips_def node_path_def)

text \<open>
  Claim C8, amended. On an endpoint without authentication every verb other than
  \<^verbatim>\<open>get\<close> raises a \<^verbatim>\<open>CloudFlareAPIError\<close> with code 0 whose message is the name of
  the verb followed by \<^verbatim>\<open>() call not available for this endpoint\<close>, so it names the
  verb; on an unused endpoint every verb raises a \<^verbatim>\<open>CloudFlareAPIError\<close> with code 0
  and the message \<^verbatim>\<open>not found\<close>. In both cases no request is handed to the transport.
\<close>

theorem disallowed_verb:
  "(v \<noteq> GET \<longrightarrow>
      invoke OPEN v b net L parts ids params data fs =
        ([], Inl (api_error 0 (method_lower v @ ''() call not available for this endpoint'')))
      \<and> contains_str (method_lower v)
          (method_lower v @ ''() call not available for this endpoint''))
   \<and> invoke VOID v b net L parts ids params data fs = ([], Inl (api_error 0 ''not found''))"
  by (cases v) (simp_all add: contains_prefix)

text \<open>\<^verbatim>\<open>delete\<close> on an endpoint without authentication and \<^verbatim>\<open>get\<close> on an unused one.\<close>

theorem disallowed_verb_witness:
  "invoke OPEN DELETE token_client (answer_with (json_response 200 doc_a1)) lib0 ips no_ids
      JNull JNull FNone =
     ([], Inl (api_error 0 ''delete() call not available for this endpoint''))
   \<and> invoke VOID GET token_client (answer_with (json_response 200 doc_a1)) lib0 ips no_ids
      JNull JNull FNone = ([], Inl (api_error 0 ''not found''))"
  using disallowed_verb [where v = DELETE and b = token_client
      and net = "answer_with (json_response 200 doc_a1)" and L = lib0 and parts = ips
      and ids = no_ids and params = JNull and data = JNull and fs = FNone]
    disallowed_verb [where v = GET and b = token_client
      and net = "answer_with (json_response 200 doc_a1)" and L = lib0 and parts = ips
      and ids = no_ids and params = JNull and data = JNull and fs = FNone]
  by simp


section \<open>Empty strings in the configuration\<close>

lemma init_config_entries:
  "cfg_str (init_config cfg a) x =
     (case overrides cfg a x of
        None \<Rightarrow> None
      | Some v \<Rightarrow> if v = Some [] then Some None else Some v)"
  by (simp add: init_config_def blank_to_none_def)

lemma overrides_simps:
  "overrides cfg a ''email'' = (case arg_email a of None \<Rightarrow> cfg_str cfg ''email'' | Some v \<Rightarrow> Some (Some v))"
  "overrides cfg a ''key'' = (case arg_key a of None \<Rightarrow> cfg_str cfg ''key'' | Some v \<Rightarrow> Some (Some v))"
  "overrides cfg a ''token'' = (case arg_token a of None \<Rightarrow> cfg_str cfg ''token'' | Some v \<Rightarrow> Some (Some v))"
  by (simp_all add: overrides_def override_def split: option.splits)

lemma overrides_other:
  "x \<notin> {''email'', ''key'', ''token'', ''certtoken'', ''profile'', ''base_url''} \<Longrightarrow>
   overrides cfg a x = cfg_str cfg x"
  by (simp add: overrides_def override_other)

lemma patch_client_sends:
  "map (\<lambda>r. (req_method r, req_url r, req_headers r ''Authorization''))
     (fst (do_auth (init patch_config blank_args ''ua'') net L PATCH zones no_ids JNull JNull
             FNone)) =
   [(''PATCH'', BASE_URL @ ''/zones'', Some ''Bearer special'')]"
proof -
  let ?b = "init patch_config blank_args ''ua''"
  have c: "cfg_str (config ?b) ''email.patch'' = None" "cfg_str (config ?b) ''key.patch'' = None"
    "cfg_str (config ?b) ''token.patch'' = Some (Some ''special'')"
    "api_email ?b = None" "api_key ?b = None" "api_token ?b = None"
    "base_url ?b = Some BASE_URL"
    by (simp_all add: init_def v4base_init_def init_config_def overrides_def cfg_get_def
      override_def blank_to_none_def no_args_def patch_config_def blank_args_def)
  have h: "add_auth_headers ?b hs PATCH = Inr (hs(''Authorization'' \<mapsto> ''Bearer special''))"
    for hs
    by (simp add: add_auth_headers_def cfg_get_def c)
  show ?thesis
    by (simp add: do_auth_def h call_def raw_def call_network_def prepare_def build_url_def
        merge_files_def zones_def no_ids_def c content_headers_def
        split: prod.splits sum.splits)
qed

text \<open>
  Claim C10, as it is stated, fails: a client constructed with the empty string as email,
  key and token, whose configuration file holds a token for \<^verbatim>\<open>PATCH\<close> calls, sends an
  authenticated \<^verbatim>\<open>PATCH\<close> with that token. The entries of the form \<^verbatim>\<open>token.patch\<close>
  pass through \<^verbatim>\<open>__init__\<close> as they are (line 950) and \<^verbatim>\<open>_add_auth_headers\<close> reads
  them first.
\<close>

theorem blank_credentials_counterexample:
  "arg_email blank_args = Some [] \<and> arg_key blank_args = Some []
   \<and> arg_token blank_args = Some []
   \<and> map (\<lambda>r. (req_method r, req_url r, req_headers r ''Authorization''))
        (fst (do_auth (init patch_config blank_args ''ua'')
                (answer_with (json_response 200 doc_a1)) lib0 PATCH zones no_ids JNull JNull
                FNone)) =
      [(''PATCH'', BASE_URL @ ''/zones'', Some ''Bearer special'')]"
  by (simp add: patch_client_sends) (simp add: blank_args_def no_args_def)

text \<open>
  Claim C10, amended. The loop of lines 952 to 954 replaces every configuration value
  that is the empty string by \<^verbatim>\<open>None\<close> and changes no other value and no key. For a
  client constructed with the empty string as email, key and token, the three entries
  are then \<^verbatim>\<open>None\<close> and so are the three credentials of \<^verbatim>\<open>_v4base\<close>; when the
  configuration file defines no credential for the method of the call (each of
  \<^verbatim>\<open>email.<method>\<close>, \<^verbatim>\<open>key.<method>\<close> and \<^verbatim>\<open>token.<method>\<close> is absent, \<^verbatim>\<open>None\<close> or
  the empty string), an authenticated call, through \<^verbatim>\<open>do_auth\<close> or
  \<^verbatim>\<open>do_auth_unwrapped\<close> and so through every verb of an authenticated endpoint, raises
  the error for no credential and hands no request to the transport.
\<close>

theorem blank_credentials_undefined:
  assumes "arg_email a = Some []" and "arg_key a = Some []" and "arg_token a = Some []"
    and "cfg_str cfg (''email.'' @ method_lower m) \<in> {None, Some None, Some (Some [])}"
    and "cfg_str cfg (''key.'' @ method_lower m) \<in> {None, Some None, Some (Some [])}"
    and "cfg_str cfg (''token.'' @ method_lower m) \<in> {None, Some None, Some (Some [])}"
  shows "(\<forall>x. overrides cfg a x = Some (Some []) \<longrightarrow> cfg_str (init_config cfg a) x = Some None)
       \<and> (\<forall>x v. overrides cfg a x = Some v \<and> v \<noteq> Some [] \<longrightarrow>
              cfg_str (init_config cfg a) x = Some v)
       \<and> (\<forall>x. overrides cfg a x = None \<longrightarrow> cfg_str (init_config cfg a) x = None)
       \<and> overrides cfg a ''email'' = Some (Some []) \<and> overrides cfg a ''key'' = Some (Some [])
       \<and> overrides cfg a ''token'' = Some (Some [])
       \<and> api_email (init cfg a ua) = None \<and> api_key (init cfg a ua) = None
       \<and> api_token (init cfg a ua) = None
       \<and> do_auth (init cfg a ua) net L m parts ids params data fs =
           ([], Inl (api_error 0 ''neither email/key or token defined''))
       \<and> do_auth_unwrapped (init cfg a ua) net L m parts ids params data fs =
           ([], Inl (api_error 0 ''neither email/key or token defined''))
       \<and> invoke AUTH m (init cfg a ua) net L parts ids params data fs =
           ([], Inl (api_error 0 ''neither email/key or token defined''))
       \<and> invoke AUTH_UNWRAPPED m (init cfg a ua) net L parts ids params data fs =
           ([], Inl (api_error 0 ''neither email/key or token defined''))"
proof -
  let ?b = "init cfg a ua"
  have pre: "overrides cfg a ''email'' = Some (Some [])" "overrides cfg a ''key'' = Some (Some [])"
    "overrides cfg a ''token'' = Some (Some [])"
    by (simp_all add: overrides_simps assms(1,2,3))
  have creds: "api_email ?b = None" "api_key ?b = None" "api_token ?b = None"
    by (simp_all add: init_def v4base_init_def cfg_get_def init_config_entries pre)
  have untouched: "cfg_str (config ?b) x =
      (case cfg_str cfg x of None \<Rightarrow> None
       | Some v \<Rightarrow> if v = Some [] then Some None else Some v)"
    if "x \<notin> {''email'', ''key'', ''token'', ''certtoken'', ''profile'', ''base_url''}" for x
    using overrides_other [OF that]
    by (simp add: init_def v4base_init_def init_config_entries)
  have over: "cfg_get (config ?b) (''email'' @ ''.'' @ method_lower m) None = None"
    "cfg_get (config ?b) (''key'' @ ''.'' @ method_lower m) None = None"
    "cfg_get (config ?b) (''token'' @ ''.'' @ method_lower m) None = None"
    using assms(4,5,6) by (cases m; auto simp: cfg_get_def untouched)+
  have refused: "add_auth_headers ?b (add_headers ?b Map.empty) m =
      Inl (api_error 0 ''neither email/key or token defined'')"
    unfolding add_auth_headers_def creds over by simp
  have flows: "do_auth ?b net L m parts ids params data fs =
           ([], Inl (api_error 0 ''neither email/key or token defined''))"
    "do_auth_unwrapped ?b net L m parts ids params data fs =
           ([], Inl (api_error 0 ''neither email/key or token defined''))"
    for fs
    using do_auth_refused [OF refused] by simp_all
  show ?thesis
    by (simp add: init_config_entries pre creds flows)
qed

text \<open>Empty strings as the three credentials and an empty configuration file.\<close>

theorem blank_credentials_witness:
  "do_auth (init empty_config blank_args ''ua'') (answer_with (json_response 200 doc_a1)) lib0
      GET zones no_ids JNull JNull FNone =
     ([], Inl (api_error 0 ''neither email/key or token defined''))
   \<and> cfg_str (init_config empty_config blank_args) ''token'' = Some None
   \<and> api_token (init empty_config blank_args ''ua'') = None"
  using blank_credentials_undefined [where a = blank_args and cfg = empty_config and m = GET
      and ua = "''ua''" and net = "answer_with (json_response 200 doc_a1)" and L = lib0
      and parts = zones and ids = no_ids and params = JNull and data = JNull and fs = FNone]
  by (simp add: blank_args_def no_args_def empty_config_def)

section \<open>The URL of a call\<close>

lemma prepare_four_parts:
  "prepare token_client GET h four_parts two_ids JNull JNull FNone =
     Inr \<lparr> req_method = ''GET'',
           req_url = BASE_URL @ ''/accounts/A1/rules/R2/lists/items'', req_headers = h,
           req_params = JNull, req_data = JNull, req_files = FNone \<rparr>"
  by (simp add: prepare_def build_url_def merge_files_def four_parts_def two_ids_def
      token_client_simps)

text \<open>
  Claim C4, as the specification states it, fails: with the fourth segment present and
  the third identifier missing, \<^verbatim>\<open>_call_network\<close> raises nothing, builds the URL
  without that identifier and hands the request to the transport.
\<close>

theorem third_identifier_counterexample:
  "call_network token_client (answer_with (json_response 200 doc_a1)) lib0 GET Map.empty
      four_parts two_ids JNull JNull FNone =
     ([\<lparr> req_method = ''GET'',
         req_url = BASE_URL @ ''/accounts/A1/rules/R2/lists/items'', req_headers = Map.empty,
         req_params = JNull, req_data = JNull, req_files = FNone \<rparr>],
      Inr (''application/json'', 200, Bytes doc_a1))
   \<and> four_parts ! 3 = Some ''items'' \<and> two_ids ! 2 = None"
  by (simp add: call_network_prepared [OF prepare_four_parts] answer_with_def receive_def
      json_response_simps response_type_json_response)
    (simp add: four_parts_def two_ids_def)

text \<open>
  The check of line 169: the first identifier is demanded when the second segment is
  present and also when a \<^verbatim>\<open>GET\<close> call carries data.
\<close>

lemma first_identifier_missing:
  assumes "pb \<noteq> None \<or> (data \<noteq> JNull \<and> m = GET)"
  shows "call_network b net L m h [Some pa, pb, pc, pd, pe] [None, idb, idc, idd] params data fs =
      ([], Inl (api_error 0 ''You must specify first identifier''))"
  using assms by (auto simp: call_network_def prepare_def build_url_def)

text \<open>
  A \<^verbatim>\<open>GET\<close> call with data on an endpoint without a second segment, with the first
  identifier supplied, takes the branch of line 168 as well: line 172 or 177 then joins
  the missing second segment to the URL, which ends the call with a \<^verbatim>\<open>TypeError\<close>
  before the transport is reached.
\<close>

lemma get_with_data_one_segment:
  assumes "data \<noteq> JNull"
  shows "call_network b net L GET h [Some pa, None, pc, pd, pe] [Some sa, idb, idc, idd]
      params data fs = ([], Inl PyTypeError)"
proof -
  have "add_strs (base_url b # xs @ [None] @ ys) = Inl PyTypeError" for xs ys
  proof (cases "base_url b")
    case None
    then show ?thesis by simp
  next
    case (Some u)
    have "add_strs (xs @ [None] @ ys) = Inl PyTypeError"
      by (induction xs rule: add_strs.induct) simp_all
    with Some show ?thesis by simp
  qed
  note none = this [of "[Some ''/'', Some pa, Some ''/'', Some sa, Some ''/'']", simplified]
  show ?thesis
    using assms none [of "[]"] none [of "[Some ''/'', idb]"]
    by (cases idb) (simp_all add: call_network_def prepare_def build_url_def)
qed

lemma build_url_interleaves:
  assumes "base_url b = Some u"
    and "pb = None \<longrightarrow> nonblank pc = None"
    and "\<not> (pb = None \<and> data \<noteq> JNull \<and> m = GET)"
    and "\<not> (pb \<noteq> None \<and> ida = None)"
  shows "build_url b m [Some pa, pb, pc, pd, pe] [ida, idb, idc, idd] data =
      Inr (spec_url u [Some pa, pb, nonblank pc, nonblank pd, nonblank pe]
             [ida, idb, nonblank idc, nonblank idd])"
proof (cases pb)
  case None
  with assms(2,3) show ?thesis
    by (cases ida; cases pc)
      (auto simp: build_url_def spec_url_def nonblank_def assms(1) split: if_splits)
next
  case (Some sb)
  with assms(4) obtain sa where ida: "ida = Some sa" by auto
  let ?parts = "[Some pa, pb, pc, pd, pe]" and ?ids = "[ida, idb, idc, idd]"
  have first: "(if ?parts ! 1 \<noteq> None \<or> (data \<noteq> JNull \<and> m = GET) then
              (if ?ids ! 0 = None then
                 Inl (api_error 0 ''You must specify first identifier'')
               else if ?ids ! 1 = None then
                 add_strs [base_url b, Some ''/'', ?parts ! 0, Some ''/'', ?ids ! 0,
                           Some ''/'', ?parts ! 1]
               else
                 add_strs [base_url b, Some ''/'', ?parts ! 0, Some ''/'', ?ids ! 0,
                           Some ''/'', ?parts ! 1, Some ''/'', ?ids ! 1])
            else
              (if ?ids ! 0 = None then
                 add_strs [base_url b, Some ''/'', ?parts ! 0]
               else
                 add_strs [base_url b, Some ''/'', ?parts ! 0, Some ''/'', ?ids ! 0]))
        = Inr (u @ ''/'' @ pa @ ''/'' @ sa @ ''/'' @ sb
               @ (case idb of None \<Rightarrow> [] | Some s \<Rightarrow> ''/'' @ s))"
    by (cases idb) (simp_all add: assms(1) Some ida)
  show ?thesis
    unfolding build_url_def first
    by (cases idb; cases pc; cases idc; cases pd; cases idd; cases pe)
      (simp_all add: spec_url_def nonblank_def Some ida)
qed

text \<open>
  Claim C4, amended. For every endpoint call: whenever the second path segment is
  present, or the call is a \<^verbatim>\<open>GET\<close> that carries data, the first identifier is
  mandatory, and without it \<^verbatim>\<open>_call_network\<close> raises the error for a missing first
  identifier and hands no request to the transport. No other identifier is mandatory.
  For every call on a client with a base URL that supplies the first identifier where
  it is mandatory, on an endpoint whose third segment is absent when its second is,
  other than a \<^verbatim>\<open>GET\<close> with data on an endpoint without a second segment, and whose
  files and data merge: the request that is handed to the transport has the URL made of
  the base URL and the literal segments interleaved with the supplied identifiers, left
  to right, where an identifier that is not supplied is skipped and the first absent
  segment ends the path, so a trailing pair of segment and identifier is left out when
  the segment is absent. For the third to fifth segment and the third and fourth
  identifier the empty string counts as absent.
\<close>

theorem url_interleaving:
  "((pb \<noteq> None \<or> (data \<noteq> JNull \<and> m = GET)) \<and> ida = None \<longrightarrow>
      call_network b net L m h [Some pa, pb, pc, pd, pe] [ida, idb, idc, idd] params data fs =
        ([], Inl (api_error 0 ''You must specify first identifier'')))
   \<and> (base_url b = Some u \<and> (pb = None \<longrightarrow> nonblank pc = None)
       \<and> \<not> (pb = None \<and> data \<noteq> JNull \<and> m = GET) \<and> \<not> (pb \<noteq> None \<and> ida = None)
       \<and> merge_files fs data = Inr (fs', data') \<longrightarrow>
      call_network b net L m h [Some pa, pb, pc, pd, pe] [ida, idb, idc, idd] params data fs =
        ([\<lparr> req_method = method_name m,
            req_url = spec_url u [Some pa, pb, nonblank pc, nonblank pd, nonblank pe]
                        [ida, idb, nonblank idc, nonblank idd],
            req_headers = h, req_params = params, req_data = data', req_files = fs' \<rparr>],
         receive L (net \<lparr> req_method = method_name m,
            req_url = spec_url u [Some pa, pb, nonblank pc, nonblank pd, nonblank pe]
                        [ida, idb, nonblank idc, nonblank idd],
            req_headers = h, req_params = params, req_data = data', req_files = fs' \<rparr>)))"
proof (intro conjI impI)
  assume "(pb \<noteq> None \<or> (data \<noteq> JNull \<and> m = GET)) \<and> ida = None"
  then show "call_network b net L m h [Some pa, pb, pc, pd, pe] [ida, idb, idc, idd] params
      data fs = ([], Inl (api_error 0 ''You must specify first identifier''))"
    using first_identifier_missing by blast
next
  assume a: "base_url b = Some u \<and> (pb = None \<longrightarrow> nonblank pc = None)
       \<and> \<not> (pb = None \<and> data \<noteq> JNull \<and> m = GET) \<and> \<not> (pb \<noteq> None \<and> ida = None)
       \<and> merge_files fs data = Inr (fs', data')"
  then have url: "build_url b m [Some pa, pb, pc, pd, pe] [ida, idb, idc, idd] data =
      Inr (spec_url u [Some pa, pb, nonblank pc, nonblank pd, nonblank pe]
             [ida, idb, nonblank idc, nonblank idd])"
    by (intro build_url_interleaves) simp_all
  from a have merged: "merge_files fs data = Inr (fs', data')" by simp
  show "call_network b net L m h [Some pa, pb, pc, pd, pe] [ida, idb, idc, idd] params data fs =
        ([\<lparr> req_method = method_name m,
            req_url = spec_url u [Some pa, pb, nonblank pc, nonblank pd, nonblank pe]
                        [ida, idb, nonblank idc, nonblank idd],
            req_headers = h, req_params = params, req_data = data', req_files = fs' \<rparr>],
         receive L (net \<lparr> req_method = method_name m,
            req_url = spec_url u [Some pa, pb, nonblank pc, nonblank pd, nonblank pe]
                        [ida, idb, nonblank idc, nonblank idd],
            req_headers = h, req_params = params, req_data = data', req_files = fs' \<rparr>))"
    by (simp add: call_network_def prepare_def url merged)
qed

text \<open>
  Four segments with two identifiers, a second segment without the first identifier,
  and a \<^verbatim>\<open>GET\<close> with data and no identifier on an endpoint of one segment.
\<close>

theorem url_interleaving_witness:
  "call_network token_client (answer_with (json_response 200 doc_a1)) lib0 GET Map.empty
      [Some ''accounts'', Some ''rules'', Some ''lists'', Some ''items'', None]
      [Some ''A1'', Some ''R2'', None, None] JNull JNull FNone =
     ([\<lparr> req_method = ''GET'',
         req_url = BASE_URL @ ''/accounts/A1/rules/R2/lists/items'', req_headers = Map.empty,
         req_params = JNull, req_data = JNull, req_files = FNone \<rparr>],
      Inr (''application/json'', 200, Bytes doc_a1))
   \<and> call_network token_client (answer_with (json_response 200 doc_a1)) lib0 GET Map.empty
        [Some ''zones'', Some ''dns_records'', None, None, None] [None, None, None, None]
        JNull JNull FNone =
       ([], Inl (api_error 0 ''You must specify first identifier''))
   \<and> call_network token_client (answer_with (json_response 200 doc_a1)) lib0 GET Map.empty
        [Some ''zones'', None, None, None, None] [None, None, None, None]
        JNull (JObj [(''name'', JStr ''example.com'')]) FNone =
       ([], Inl (api_error 0 ''You must specify first identifier''))"
  using url_interleaving [where b = token_client and u = BASE_URL
      and pa = "''accounts''" and pb = "Some ''rules''" and pc = "Some ''lists''"
      and pd = "Some ''items''" and pe = None and ida = "Some ''A1''"
      and idb = "Some ''R2''" and idc = None and idd = None and data = JNull and m = GET
      and net = "answer_with (json_response 200 doc_a1)" and L = lib0 and h = Map.empty
      and params = JNull and fs = FNone and fs' = FNone and data' = JNull]
    url_interleaving [where b = token_client
      and pa = "''zones''" and pb = "Some ''dns_records''" and pc = None
      and pd = None and pe = None and ida = None
      and idb = None and idc = None and idd = None and data = JNull and m = GET
      and net = "answer_with (json_response 200 doc_a1)" and L = lib0 and h = Map.empty
      and params = JNull and fs = FNone]
    url_interleaving [where b = token_client
      and pa = "''zones''" and pb = None and pc = None
      and pd = None and pe = None and ida = None
      and idb = None and idc = None and idd = None
      and data = "JObj [(''name'', JStr ''example.com'')]" and m = GET
      and net = "answer_with (json_response 200 doc_a1)" and L = lib0 and h = Map.empty
      and params = JNull and fs = FNone]
  by (simp add: token_client_simps spec_url_def nonblank_def merge_files_def answer_with_def
      receive_def json_response_simps response_type_json_response)

section \<open>The headers of a request\<close>

lemma prepare_headers:
  "prepare b m h parts ids params data fs = Inr req \<Longrightarrow> req_headers req = h"
  by (auto simp: prepare_def split: if_splits sum.splits prod.splits)

lemma call_network_sent:
  "req \<in> set (fst (call_network b net L m h parts ids params data fs)) \<Longrightarrow>
   req_headers req = h"
  by (auto simp: call_network_def prepare_headers split: sum.splits)

lemma fst_raw:
  "fst (raw b net L m h parts ids params data fs) =
   fst (call_network b net L m h parts ids params data fs)"
  by (simp add: raw_def split: prod.splits sum.splits)

lemma fst_call:
  "fst (call b net L m h parts ids params data fs) =
   fst (call_network b net L m h parts ids params data fs)"
  by (simp add: call_def fst_raw [symmetric] split: prod.splits sum.splits)

lemma call_sent:
  "req \<in> set (fst (call b net L m h parts ids params data fs)) \<Longrightarrow> req_headers req = h"
  "req \<in> set (fst (call_unwrapped b net L m h parts ids params data fs)) \<Longrightarrow>
   req_headers req = h"
  by (simp_all add: fst_call call_unwrapped_def fst_raw call_network_sent)

lemma add_auth_headers_keeps:
  assumes "add_auth_headers b h m = Inr h'"
  shows "h' ''User-Agent'' = h ''User-Agent''" and "h' ''Content-Type'' = h ''Content-Type''"
  using assms by (auto simp: add_auth_headers_def Let_def split: if_splits)

lemma add_certtoken_headers_keeps:
  assumes "add_certtoken_headers b h m = Inr h'"
  shows "h' ''User-Agent'' = h ''User-Agent''" and "h' ''Content-Type'' = h ''Content-Type''"
  using assms by (auto simp: add_certtoken_headers_def split: option.splits)

lemma content_headers_simps:
  "content_headers h data fs ''User-Agent'' = h ''User-Agent''"
  "content_headers h data fs ''Content-Type'' =
     (if truthy_files fs then None
      else if is_str data then Some ''application/javascript'' else h ''Content-Type'')"
  by (simp_all add: content_headers_def Let_def)

lemma add_headers_simps:
  "add_headers b h ''User-Agent'' = Some (user_agent b)"
  "add_headers b h ''Content-Type'' = Some ''application/json''"
  by (simp_all add: add_headers_def)

lemma do_auth_sent:
  assumes "req \<in> set (fst (do_auth b net L m parts ids params data fs))
         \<or> req \<in> set (fst (do_auth_unwrapped b net L m parts ids params data fs))"
  shows "req_headers req ''User-Agent'' = Some (user_agent b)"
    and "req_headers req ''Content-Type'' =
      (if truthy_files fs then None
       else if is_str data then Some ''application/javascript''
       else Some ''application/json'')"
proof -
  obtain h where h: "add_auth_headers b (add_headers b Map.empty) m = Inr h"
    and sent: "req_headers req = content_headers h data fs"
    using assms
    by (auto simp: do_auth_def do_auth_unwrapped_def split: sum.splits dest: call_sent)
  show "req_headers req ''User-Agent'' = Some (user_agent b)"
    by (simp add: sent content_headers_simps add_auth_headers_keeps [OF h] add_headers_simps)
  show "req_headers req ''Content-Type'' =
      (if truthy_files fs then None
       else if is_str data then Some ''application/javascript''
       else Some ''application/json'')"
    by (simp add: sent content_headers_simps add_auth_headers_keeps [OF h] add_headers_simps)
qed

lemma do_plain_sent:
  assumes "req \<in> set (fst (do_no_auth b net L m parts ids params data fs))
         \<or> req \<in> set (fst (do_certauth b net L m parts ids params data fs))"
  shows "req_headers req ''User-Agent'' = Some (user_agent b)"
    and "req_headers req ''Content-Type'' = Some ''application/json''"
proof -
  from assms have "req_headers req = add_headers b Map.empty
      \<or> (\<exists>h. add_certtoken_headers b (add_headers b Map.empty) m = Inr h
              \<and> req_headers req = h)"
    by (auto simp: do_no_auth_def do_certauth_def split: sum.splits dest: call_sent)
  then show "req_headers req ''User-Agent'' = Some (user_agent b)"
    and "req_headers req ''Content-Type'' = Some ''application/json''"
    by (auto simp: add_headers_simps dest: add_certtoken_headers_keeps)
qed

lemma do_auth_token_client:
  "do_auth token_client net L m parts ids params data fs =
     call token_client net L m
       (content_headers [''User-Agent'' \<mapsto> ''python-cloudflare'',
           ''Content-Type'' \<mapsto> ''application/json'', ''Authorization'' \<mapsto> ''Bearer secret'']
          data fs)
       parts ids params data fs"
  by (cases m)
    (simp_all add: do_auth_def add_auth_headers_def add_headers_def token_client_creds
      token_client_simps cfg_get_def)

lemma prepare_zones_any:
  "prepare token_client m h zones no_ids JNull data fs =
     (if data \<noteq> JNull \<and> m = GET then Inl (api_error 0 ''You must specify first identifier'')
      else case merge_files fs data of
             Inl e \<Rightarrow> Inl e
           | Inr (fs', data') \<Rightarrow>
               Inr \<lparr> req_method = method_name m, req_url = BASE_URL @ ''/zones'',
                     req_headers = h, req_params = JNull, req_data = data',
                     req_files = fs' \<rparr>)"
  by (simp add: prepare_def build_url_def zones_def no_ids_def token_client_simps
      split: sum.splits)


lemma cert_client_simps:
  "base_url cert_client = Some BASE_URL" "user_agent cert_client = ''python-cloudflare''"
  "cfg_str (config cert_client) (''certtoken.'' @ method_lower m) = None"
  "api_certtoken cert_client = Some ''cert-secret''"
  by (simp_all add: cert_client_def init_def v4base_init_def init_config_def overrides_def
      cfg_get_def override_def blank_to_none_def no_args_def empty_config_def)

lemma do_certauth_cert_client:
  "do_certauth cert_client net L m parts ids params data fs =
     call cert_client net L m
       [''User-Agent'' \<mapsto> ''python-cloudflare'', ''Content-Type'' \<mapsto> ''application/json'',
        ''X-Auth-User-Service-Key'' \<mapsto> ''cert-secret'']
       parts ids params data fs"
  using cert_client_simps(3) [of m]
  by (simp add: do_certauth_def add_certtoken_headers_def add_headers_def cert_client_simps
      cfg_get_def)

lemma prepare_one_segment:
  assumes "base_url b = Some u" and "m \<noteq> GET"
  shows "prepare b m h [Some pa, None, None, None, None] no_ids JNull data fs =
     (case merge_files fs data of
        Inl e \<Rightarrow> Inl e
      | Inr (fs', data') \<Rightarrow>
          Inr \<lparr> req_method = method_name m, req_url = u @ ''/'' @ pa,
                req_headers = h, req_params = JNull, req_data = data',
                req_files = fs' \<rparr>)"
  using assms
  by (simp add: prepare_def build_url_def no_ids_def split: sum.splits)

text \<open>
  Claim C9. Every request carries the \<^verbatim>\<open>User-Agent\<close> header, and \<^verbatim>\<open>do_auth\<close> sets
  the content type \<^verbatim>\<open>application/javascript\<close> for a body that is a script string, as
  the claim says. The code departs from the claim at the inputs evaluated here. On an
  endpoint with certificate authentication \<^verbatim>\<open>do_certauth\<close> never adjusts the content
  type: a \<^verbatim>\<open>POST\<close> whose body is a script string, and a \<^verbatim>\<open>POST\<close> with a file attached,
  both go to the transport with the content type \<^verbatim>\<open>application/json\<close>, where the
  sibling \<^verbatim>\<open>do_auth\<close> sets \<^verbatim>\<open>application/javascript\<close> for the same script. And with a
  file attached \<^verbatim>\<open>do_auth\<close> sets \<^verbatim>\<open>multipart/form-data\<close> in line 130 and deletes the
  header again in line 132, so the headers that it hands to the transport have no
  \<^verbatim>\<open>Content-Type\<close> entry.
\<close>

theorem certauth_content_type:
  "map (\<lambda>r. (req_method r, req_url r, req_data r, req_files r, req_headers r ''Content-Type''))
     (fst (do_certauth cert_client (answer_with (json_response 200 doc_a1)) lib0 POST
             certificates no_ids JNull (JStr script) FNone)) =
   [(''POST'', BASE_URL @ ''/certificates'', JStr script, FNone, Some ''application/json'')]
   \<and> map (\<lambda>r. (req_method r, req_url r, req_data r, req_files r, req_headers r ''Content-Type''))
     (fst (do_certauth cert_client (answer_with (json_response 200 doc_a1)) lib0 POST
             certificates no_ids JNull JNull one_file)) =
   [(''POST'', BASE_URL @ ''/certificates'', JNull, one_file, Some ''application/json'')]
   \<and> map (\<lambda>r. (req_method r, req_url r, req_data r, req_files r, req_headers r ''Content-Type''))
     (fst (do_auth token_client (answer_with (json_response 200 doc_a1)) lib0 POST
             certificates no_ids JNull (JStr script) FNone)) =
   [(''POST'', BASE_URL @ ''/certificates'', JStr script, FNone, Some ''application/javascript'')]
   \<and> map (\<lambda>r. (req_method r, req_url r, req_data r, req_files r, req_headers r ''Content-Type''))
     (fst (do_auth token_client (answer_with (json_response 200 doc_a1)) lib0 POST
             certificates no_ids JNull JNull one_file)) =
   [(''POST'', BASE_URL @ ''/certificates'', JNull, one_file, None)]"
  by (simp add: do_certauth_cert_client do_auth_token_client fst_call call_network_def
      certificates_def prepare_one_segment cert_client_simps token_client_simps
      merge_files_def one_file_def content_headers_def)

end
